theory Spec2Isabelle
  imports Complex_Main "HOL-Library.Log_Nat" "HOL-Library.Multiset"
begin

section \<open>Black Rabbit: the panel puzzle engine and the case generation pipeline\<close>

text \<open>
  A shallow embedding of the TypeScript sources. Array indices, grid coordinates and the
  panel id counter are natural numbers. The \<open>number\<close> fields of the puzzle state (score,
  combo, target score, timers) are binary64 values, and the arithmetic on them rounds as
  the arithmetic of JavaScript does. An exception of the source is the \<open>Inl\<close> branch of
  a sum.
\<close>

datatype error =
    TypeError      \<comment> \<open>a property of \<open>undefined\<close> is read\<close>
  | TooFewSuspects \<comment> \<open>\<open>throw new Error('Need at least 3 suspects ...')\<close>\<close>

subsection \<open>Decimal rendering of counters (template strings such as \<open>`panel-${n}`\<close>)\<close>

definition digitChar :: "nat \<Rightarrow> char" where
  "digitChar d = ''0123456789'' ! d"

fun showNat :: "nat \<Rightarrow> string" where
  "showNat n = (if n < 10 then [digitChar n] else showNat (n div 10) @ [digitChar (n mod 10)])"

declare showNat.simps [simp del]

definition showInt :: "int \<Rightarrow> string" where
  "showInt i = (if i < 0 then ''-'' @ showNat (nat (- i)) else showNat (nat i))"

subsection \<open>JavaScript numbers\<close>

text \<open>
  A \<open>number\<close> is a binary64 value: a finite one is the rational it denotes (the two zeros
  are one value, as they are for \<open>===\<close>), the others are the two infinities and NaN.
  \<open>toDouble\<close> rounds a rational to the nearest binary64 value, ties to the even
  significand: the result is a multiple of \<open>2 ^ (e - 52)\<close>, where \<open>2 ^ e\<close> is the largest
  power of two that is at most the magnitude, and \<open>e\<close> is not below \<open>- 1022\<close> (the
  subnormal range); a result of magnitude \<open>2 ^ 1024\<close> is an infinity, which takes a
  magnitude of at least \<open>2 ^ 1023\<close> to begin with.
\<close>

datatype number = Num rat | PosInfinity | NegInfinity | NaN

definition pow2 :: "int \<Rightarrow> rat" where
  "pow2 e = (if 0 \<le> e then of_int (2 ^ nat e) else 1 / of_int (2 ^ nat (- e)))"

definition exponentOf :: "rat \<Rightarrow> int" where
  "exponentOf x =
     (let p = \<bar>fst (quotient_of x)\<bar>;
          q = snd (quotient_of x);
          e0 = bitlen p - bitlen q;
          e = (if pow2 e0 \<le> \<bar>x\<bar> then e0 else e0 - 1)
      in max e (- 1022))"

definition roundHalfEven :: "rat \<Rightarrow> int" where
  "roundHalfEven y =
     (let f = \<lfloor>y\<rfloor>; d = y - of_int f
      in if d < 1 / 2 then f else if 1 / 2 < d then f + 1 else if even f then f else f + 1)"

definition toDouble :: "rat \<Rightarrow> number" where
  "toDouble x =
     (let e = exponentOf x;
          quantum = pow2 (e - 52);
          r = of_int (roundHalfEven (x / quantum)) * quantum
      in if e < 1023 then Num r
         else if pow2 1024 \<le> r then PosInfinity
         else if r \<le> - pow2 1024 then NegInfinity
         else Num r)"

text \<open>\<open>a + b\<close>, \<open>a * b\<close> and \<open>Math.floor(a)\<close>.\<close>

fun jsAdd :: "number \<Rightarrow> number \<Rightarrow> number" where
  "jsAdd (Num x) (Num y) = toDouble (x + y)"
| "jsAdd NaN b = NaN"
| "jsAdd a NaN = NaN"
| "jsAdd PosInfinity NegInfinity = NaN"
| "jsAdd NegInfinity PosInfinity = NaN"
| "jsAdd PosInfinity b = PosInfinity"
| "jsAdd NegInfinity b = NegInfinity"
| "jsAdd a PosInfinity = PosInfinity"
| "jsAdd a NegInfinity = NegInfinity"

definition signedInfinity :: "bool \<Rightarrow> rat \<Rightarrow> number" where
  "signedInfinity positive x =
     (if x = 0 then NaN else if (0 < x) = positive then PosInfinity else NegInfinity)"

fun jsMul :: "number \<Rightarrow> number \<Rightarrow> number" where
  "jsMul (Num x) (Num y) = toDouble (x * y)"
| "jsMul NaN b = NaN"
| "jsMul a NaN = NaN"
| "jsMul PosInfinity (Num y) = signedInfinity True y"
| "jsMul NegInfinity (Num y) = signedInfinity False y"
| "jsMul (Num x) PosInfinity = signedInfinity True x"
| "jsMul (Num x) NegInfinity = signedInfinity False x"
| "jsMul PosInfinity PosInfinity = PosInfinity"
| "jsMul NegInfinity NegInfinity = PosInfinity"
| "jsMul PosInfinity NegInfinity = NegInfinity"
| "jsMul NegInfinity PosInfinity = NegInfinity"

fun jsFloor :: "number \<Rightarrow> number" where
  "jsFloor (Num x) = Num (of_int \<lfloor>x\<rfloor>)"
| "jsFloor a = a"

subsection \<open>JavaScript array reads and writes\<close>

text \<open>
  \<open>xs[i]\<close> beyond the end of a JavaScript array is \<open>undefined\<close>; a cell of the puzzle grid
  that is \<open>null\<close> or \<open>undefined\<close> is \<open>None\<close> here (the source tests cells by truthiness).
  A write beyond the end grows the array.
\<close>

definition jsGet :: "'a option list \<Rightarrow> nat \<Rightarrow> 'a option" where
  "jsGet xs i = (if i < length xs then xs ! i else None)"

definition jsSet :: "'a option list \<Rightarrow> nat \<Rightarrow> 'a option \<Rightarrow> 'a option list" where
  "jsSet xs i v =
     (if i < length xs then xs[i := v] else xs @ replicate (i - length xs) None @ [v])"

subsection \<open>panel\_puzzle.ts: data\<close>

datatype PanelType = Magnifier | Fingerprint | Document | Witness | Key | Flashlight

datatype BonusType = Line_h | Line_v | Cross | Blast

record Panel =
  ptype :: PanelType
  bonus :: "BonusType option"
  row :: nat
  col :: nat
  pid :: string

datatype Direction = Horizontal | Vertical | Both

datatype Shape = Line | L | T

record Match =
  positions :: "(nat \<times> nat) list"
  direction :: Direction
  shape :: Shape
  mtype :: PanelType

type_synonym Grid = "Panel option list list"

record PanelPuzzleState =
  grid :: Grid
  score :: number
  combo :: number
  targetScore :: number
  timeRemaining :: number
  isAnimating :: bool
  isGameOver :: bool
  riseProgress :: number
  nextRow :: "Panel list"
  selected :: "(nat \<times> nat) option"

record SwapResult =
  swapped :: bool
  state :: PanelPuzzleState

definition GRID_ROWS :: nat where "GRID_ROWS = 12"
definition GRID_COLS :: nat where "GRID_COLS = 6"

text \<open>\<open>grid[row][col]\<close> where the row exists (the callers below check that it does).\<close>

definition cellAt :: "Grid \<Rightarrow> nat \<Rightarrow> nat \<Rightarrow> Panel option" where
  "cellAt g r c = (if r < length g then jsGet (g ! r) c else None)"

definition setCell :: "Grid \<Rightarrow> nat \<Rightarrow> nat \<Rightarrow> Panel option \<Rightarrow> Grid" where
  "setCell g r c v = (if r < length g then g[r := jsSet (g ! r) c v] else g)"

text \<open>The module counter \<open>panelIdCounter\<close> is threaded through explicitly.\<close>

definition generatePanelId :: "nat \<Rightarrow> string \<times> nat" where
  "generatePanelId panelIdCounter = (''panel-'' @ showNat panelIdCounter, panelIdCounter + 1)"

subsection \<open>isAdjacent and trySwap\<close>

definition absDiff :: "nat \<Rightarrow> nat \<Rightarrow> nat" where
  "absDiff a b = (if a \<le> b then b - a else a - b)"

definition isAdjacent :: "nat \<Rightarrow> nat \<Rightarrow> nat \<Rightarrow> nat \<Rightarrow> bool" where
  "isAdjacent row1 col1 row2 col2 =
     (let rowDiff = absDiff row1 row2; colDiff = absDiff col1 col2
      in (rowDiff = 1 \<and> colDiff = 0) \<or> (rowDiff = 0 \<and> colDiff = 1))"

subsection \<open>findMatches\<close>

type_synonym SeqCell = "nat \<times> nat \<times> PanelType"

text \<open>
  One step of the inner scanning loop: \<open>sequence\<close> is the run being built, \<open>out\<close> the
  runs of length 3 or more pushed so far.
\<close>

definition scanCell :: "Grid \<Rightarrow> nat \<times> nat \<Rightarrow> SeqCell list \<times> SeqCell list list
    \<Rightarrow> SeqCell list \<times> SeqCell list list" where
  "scanCell g rc acc =
     (case acc of (sequence, out) \<Rightarrow>
      (case rc of (r, c) \<Rightarrow>
       (case cellAt g r c of
          Some panel \<Rightarrow>
            if sequence = [] \<or> ptype panel = snd (snd (hd sequence))
            then (sequence @ [(r, c, ptype panel)], out)
            else ([(r, c, ptype panel)], if length sequence \<ge> 3 then out @ [sequence] else out)
        | None \<Rightarrow> ([], if length sequence \<ge> 3 then out @ [sequence] else out))))"

definition scanLine :: "Grid \<Rightarrow> (nat \<times> nat) list \<Rightarrow> SeqCell list list \<Rightarrow> SeqCell list list" where
  "scanLine g cells out =
     (case fold (scanCell g) cells ([], out) of (sequence, out') \<Rightarrow>
        if length sequence \<ge> 3 then out' @ [sequence] else out')"

definition horizontalSequences :: "Grid \<Rightarrow> SeqCell list list" where
  "horizontalSequences g =
     fold (\<lambda>r out. scanLine g (map (\<lambda>c. (r, c)) [0..<GRID_COLS]) out) [0..<GRID_ROWS] []"

definition verticalSequences :: "Grid \<Rightarrow> SeqCell list list" where
  "verticalSequences g =
     fold (\<lambda>c out. scanLine g (map (\<lambda>r. (r, c)) [0..<GRID_ROWS]) out) [0..<GRID_COLS] []"

text \<open>
  \<open>positionToSequences\<close> is a \<open>Map\<close> keyed by \<open>`${row},${col}`\<close>; it is iterated in
  insertion order, so it is an association list here, keyed by the pair. A run is
  identified by its cells: two different runs of one direction share no cell.
\<close>

type_synonym SeqEntry = "(nat \<times> nat) \<times> (SeqCell list option \<times> SeqCell list option)"

fun setH :: "SeqEntry list \<Rightarrow> nat \<times> nat \<Rightarrow> SeqCell list \<Rightarrow> SeqEntry list" where
  "setH [] k s = [(k, (Some s, None))]"
| "setH ((k', (h, v)) # m) k s =
     (if k' = k then (k', (Some s, v)) # m else (k', (h, v)) # setH m k s)"

fun setV :: "SeqEntry list \<Rightarrow> nat \<times> nat \<Rightarrow> SeqCell list \<Rightarrow> SeqEntry list" where
  "setV [] k s = [(k, (None, Some s))]"
| "setV ((k', (h, v)) # m) k s =
     (if k' = k then (k', (h, Some s)) # m else (k', (h, v)) # setV m k s)"

definition positionToSequences :: "SeqCell list list \<Rightarrow> SeqCell list list \<Rightarrow> SeqEntry list" where
  "positionToSequences hs vs =
     (let m1 = fold (\<lambda>s m. fold (\<lambda>p m'. setH m' (fst p, fst (snd p)) s) s m) hs []
      in fold (\<lambda>s m. fold (\<lambda>p m'. setV m' (fst p, fst (snd p)) s) s m) vs m1)"

text \<open>A JavaScript \<open>Set\<close> keeps the first insertion of an element.\<close>

definition addAll :: "'a list \<Rightarrow> 'a list \<Rightarrow> 'a list" where
  "addAll acc xs = fold (\<lambda>x a. if x \<in> set a then a else a @ [x]) xs acc"

definition cellPos :: "SeqCell \<Rightarrow> nat \<times> nat" where
  "cellPos p = (fst p, fst (snd p))"

text \<open>
  The loop over the entries of \<open>positionToSequences\<close>: the state is
  \<open>(matches, processedH, processedV)\<close>.
\<close>

definition intersectStep :: "SeqEntry \<Rightarrow> Match list \<times> SeqCell list list \<times> SeqCell list list
    \<Rightarrow> Match list \<times> SeqCell list list \<times> SeqCell list list" where
  "intersectStep e acc =
     (case acc of (matches, processedH, processedV) \<Rightarrow>
      (case e of
         ((intRow, intCol), (Some h, Some v)) \<Rightarrow>
           if h \<notin> set processedH \<and> v \<notin> set processedV then
             (let allPositions = addAll (addAll [] (map cellPos h)) (map cellPos v);
                  hStart = fst (snd (hd h));
                  hEnd = fst (snd (last h));
                  vStart = fst (hd v);
                  vEnd = fst (last v);
                  isHMiddle = (intCol > hStart \<and> intCol < hEnd);
                  isVMiddle = (intRow > vStart \<and> intRow < vEnd);
                  sh = (if isHMiddle \<or> isVMiddle then T else L)
              in (matches @ [\<lparr>positions = allPositions, direction = Both, shape = sh,
                              mtype = snd (snd (hd h))\<rparr>],
                  processedH @ [h], processedV @ [v]))
           else acc
       | _ \<Rightarrow> acc))"

definition lineMatch :: "Direction \<Rightarrow> SeqCell list \<Rightarrow> Match" where
  "lineMatch d s =
     \<lparr>positions = map cellPos s, direction = d, shape = Line, mtype = snd (snd (hd s))\<rparr>"

definition findMatches :: "Grid \<Rightarrow> error + Match list" where
  "findMatches g =
     (if length g < GRID_ROWS then Inl TypeError
      else
        (let hs = horizontalSequences g;
             vs = verticalSequences g
         in (case fold intersectStep (positionToSequences hs vs) ([], [], []) of
               (matches, processedH, processedV) \<Rightarrow>
                 Inr (matches
                      @ map (lineMatch Horizontal) (filter (\<lambda>s. s \<notin> set processedH) hs)
                      @ map (lineMatch Vertical) (filter (\<lambda>s. s \<notin> set processedV) vs)))))"

text \<open>
  \<open>trySwap\<close>. \<open>newGrid[selectedRow]\<close> and \<open>newGrid[targetRow]\<close> are read at once; a row that
  does not exist makes that read throw.
\<close>

definition restamp :: "Grid \<Rightarrow> nat \<Rightarrow> nat \<Rightarrow> Grid" where
  "restamp g r c =
     (case cellAt g r c of
        Some p \<Rightarrow> setCell g r c (Some (p\<lparr>row := r, col := c\<rparr>))
      | None \<Rightarrow> g)"

definition swapCells :: "Grid \<Rightarrow> nat \<Rightarrow> nat \<Rightarrow> nat \<Rightarrow> nat \<Rightarrow> Grid" where
  "swapCells g selectedRow selectedCol targetRow targetCol =
     (let panel1 = cellAt g selectedRow selectedCol;
          panel2 = cellAt g targetRow targetCol;
          g1 = setCell g selectedRow selectedCol panel2;
          g2 = setCell g1 targetRow targetCol panel1;
          g3 = restamp g2 selectedRow selectedCol
      in restamp g3 targetRow targetCol)"

definition trySwap :: "PanelPuzzleState \<Rightarrow> nat \<Rightarrow> nat \<Rightarrow> error + SwapResult" where
  "trySwap st targetRow targetCol =
     (case selected st of
        None \<Rightarrow> Inr \<lparr>swapped = False, state = st\<rparr>
      | Some (selectedRow, selectedCol) \<Rightarrow>
          if \<not> isAdjacent selectedRow selectedCol targetRow targetCol
          then Inr \<lparr>swapped = False, state = st\<rparr>
          else if \<not> (selectedRow < length (grid st) \<and> targetRow < length (grid st))
          then Inl TypeError
          else
            (let newGrid = swapCells (grid st) selectedRow selectedCol targetRow targetCol
             in (case findMatches newGrid of
                   Inl e \<Rightarrow> Inl e
                 | Inr matches \<Rightarrow>
                     if length matches = 0
                     then Inr \<lparr>swapped = False, state = st\<lparr>selected := None\<rparr>\<rparr>
                     else Inr \<lparr>swapped = True,
                               state = st\<lparr>grid := newGrid, selected := None,
                                           isAnimating := True\<rparr>\<rparr>)))"

subsection \<open>processMatches\<close>

text \<open>\<open>grid[row][col]\<close> and \<open>grid[row][col] = v\<close>: reading a cell of a missing row throws.\<close>

definition getCell :: "Grid \<Rightarrow> nat \<Rightarrow> nat \<Rightarrow> error + Panel option" where
  "getCell g r c = (if r < length g then Inr (jsGet (g ! r) c) else Inl TypeError)"

definition putCell :: "Grid \<Rightarrow> nat \<Rightarrow> nat \<Rightarrow> Panel option \<Rightarrow> error + Grid" where
  "putCell g r c v = (if r < length g then Inr (g[r := jsSet (g ! r) c v]) else Inl TypeError)"

fun foldE :: "('a \<Rightarrow> 's \<Rightarrow> error + 's) \<Rightarrow> 'a list \<Rightarrow> 's \<Rightarrow> error + 's" where
  "foldE f [] s = Inr s"
| "foldE f (x # xs) s = (case f x s of Inl e \<Rightarrow> Inl e | Inr s' \<Rightarrow> foldE f xs s')"

type_synonym BonusSpec = "nat \<times> nat \<times> PanelType \<times> BonusType"

text \<open>
  The bonus a match earns (the \<open>if\<close> chain at the head of the loop body), \<open>None\<close> when it
  earns none. \<open>match.positions[Math.floor(match.positions.length / 2)]\<close> is \<open>undefined\<close> for
  a match with no position, and reading its \<open>row\<close> throws.
\<close>

definition centerPos :: "Match \<Rightarrow> error + (nat \<times> nat)" where
  "centerPos m =
     (let i = length (positions m) div 2
      in if i < length (positions m) then Inr (positions m ! i) else Inl TypeError)"

definition bonusOf :: "Match \<Rightarrow> error + BonusSpec option" where
  "bonusOf m =
     (if shape m = L \<or> shape m = T then
        (case centerPos m of Inl e \<Rightarrow> Inl e
         | Inr (r, c) \<Rightarrow> Inr (Some (r, c, mtype m, Blast)))
      else if length (positions m) \<ge> 5 then
        (case centerPos m of Inl e \<Rightarrow> Inl e
         | Inr (r, c) \<Rightarrow> Inr (Some (r, c, mtype m, Cross)))
      else if length (positions m) = 4 then
        (case centerPos m of Inl e \<Rightarrow> Inl e
         | Inr (r, c) \<Rightarrow>
             Inr (Some (r, c, mtype m, if direction m = Horizontal then Line_h else Line_v)))
      else Inr None)"

definition collectBonus :: "Grid \<Rightarrow> nat \<times> nat \<Rightarrow> (nat \<times> nat \<times> BonusType) list
    \<Rightarrow> error + (nat \<times> nat \<times> BonusType) list" where
  "collectBonus g pos bonusesToActivate =
     (case getCell g (fst pos) (snd pos) of
        Inl e \<Rightarrow> Inl e
      | Inr None \<Rightarrow> Inr bonusesToActivate
      | Inr (Some panel) \<Rightarrow>
          (case bonus panel of
             None \<Rightarrow> Inr bonusesToActivate
           | Some b \<Rightarrow> Inr (bonusesToActivate @ [(fst pos, snd pos, b)])))"

definition clearPos :: "nat \<times> nat \<Rightarrow> Grid \<Rightarrow> error + Grid" where
  "clearPos pos g = putCell g (fst pos) (snd pos) None"

text \<open>
  The body of \<open>for (const match of matches)\<close>; the state is
  \<open>(newGrid, bonusesToActivate, bonusToCreate)\<close>.
\<close>

definition processMatch :: "Match \<Rightarrow> Grid \<times> (nat \<times> nat \<times> BonusType) list \<times> BonusSpec option
    \<Rightarrow> error + (Grid \<times> (nat \<times> nat \<times> BonusType) list \<times> BonusSpec option)" where
  "processMatch m acc =
     (case acc of (newGrid, bonusesToActivate, bonusToCreate) \<Rightarrow>
      (case bonusOf m of
         Inl e \<Rightarrow> Inl e
       | Inr b \<Rightarrow>
          (let bonusToCreate' = (case b of Some x \<Rightarrow> Some x | None \<Rightarrow> bonusToCreate)
           in (case foldE (collectBonus newGrid) (positions m) bonusesToActivate of
                 Inl e \<Rightarrow> Inl e
               | Inr bonusesToActivate' \<Rightarrow>
                  (case foldE clearPos (positions m) newGrid of
                     Inl e \<Rightarrow> Inl e
                   | Inr newGrid' \<Rightarrow> Inr (newGrid', bonusesToActivate', bonusToCreate'))))))"

text \<open>
  \<open>activateBonus\<close>: the occupied cells a bonus clears. The row and the column loops read
  \<open>grid[row][c]\<close> and \<open>grid[r][col]\<close> for every \<open>c < GRID_COLS\<close>, \<open>r < GRID_ROWS\<close>. The
  blast loops run over \<open>row - 1 .. row + 1\<close> and \<open>col - 1 .. col + 1\<close> and skip negative
  coordinates, which is what the truncating subtraction of \<open>nat\<close> gives.
\<close>

definition occupied :: "Grid \<Rightarrow> (nat \<times> nat) list \<Rightarrow> (nat \<times> nat) list" where
  "occupied g ps = filter (\<lambda>p. cellAt g (fst p) (snd p) \<noteq> None) ps"

definition blastCells :: "nat \<Rightarrow> nat \<Rightarrow> (nat \<times> nat) list" where
  "blastCells r c =
     filter (\<lambda>p. fst p < GRID_ROWS \<and> snd p < GRID_COLS)
       (concat (map (\<lambda>r'. map (\<lambda>c'. (r', c')) [c - 1 ..< c + 2]) [r - 1 ..< r + 2]))"

definition activateBonus :: "Grid \<Rightarrow> nat \<Rightarrow> nat \<Rightarrow> BonusType \<Rightarrow> error + (nat \<times> nat) list" where
  "activateBonus g r c b =
     (case b of
        Line_h \<Rightarrow>
          if r < length g then Inr (occupied g (map (\<lambda>c'. (r, c')) [0..<GRID_COLS]))
          else Inl TypeError
      | Line_v \<Rightarrow>
          if GRID_ROWS \<le> length g then Inr (occupied g (map (\<lambda>r'. (r', c)) [0..<GRID_ROWS]))
          else Inl TypeError
      | Cross \<Rightarrow>
          if r < length g \<and> GRID_ROWS \<le> length g then
            Inr (occupied g (map (\<lambda>c'. (r, c')) [0..<GRID_COLS])
                 @ filter (\<lambda>p. fst p \<noteq> r) (occupied g (map (\<lambda>r'. (r', c)) [0..<GRID_ROWS])))
          else Inl TypeError
      | Blast \<Rightarrow>
          (let cells = blastCells r c
           in if list_all (\<lambda>p. fst p < length g) cells then Inr (occupied g cells)
              else Inl TypeError))"

text \<open>
  The chain loop \<open>while (bonusesToActivate.length > 0)\<close>. The inner loop over the cleared
  positions queues the bonus of a cleared panel and empties the cell.
\<close>

definition chainStep :: "(nat \<times> nat) list \<Rightarrow> nat \<times> nat
    \<Rightarrow> Grid \<times> (nat \<times> nat \<times> BonusType) list \<Rightarrow> Grid \<times> (nat \<times> nat \<times> BonusType) list" where
  "chainStep activatedPositions pos acc =
     (case acc of (g, queue) \<Rightarrow>
        (let queue' =
               (case cellAt g (fst pos) (snd pos) of
                  None \<Rightarrow> queue
                | Some panel \<Rightarrow>
                   (case bonus panel of
                      None \<Rightarrow> queue
                    | Some b \<Rightarrow>
                       if pos \<notin> set activatedPositions then queue @ [(fst pos, snd pos, b)]
                       else queue))
         in (setCell g (fst pos) (snd pos) None, queue')))"

definition countCells :: "Grid \<Rightarrow> nat" where
  "countCells g = sum_list (map (\<lambda>r. length (filter (\<lambda>x. x \<noteq> None) r)) g)"

lemma count_upd_None:
  "i < length xs \<Longrightarrow> length (filter (\<lambda>x. x \<noteq> None) (xs[i := None])) + (if xs ! i \<noteq> None then 1 else 0) = length (filter (\<lambda>x. x \<noteq> None) xs)"
proof (induction xs arbitrary: i)
  case Nil then show ?case by simp
next
  case (Cons a xs)
  then show ?case by (cases i) auto
qed

lemma jsSet_None_count:
  "length (filter (\<lambda>x. x \<noteq> None) (jsSet xs i None)) + (if jsGet xs i \<noteq> None then 1 else 0) = length (filter (\<lambda>x. x \<noteq> None) xs)"
  using count_upd_None[of i xs] by (auto simp: jsSet_def jsGet_def)

lemma sum_list_upd:
  "r < length g \<Longrightarrow> sum_list (map f (g[r := x])) + f (g ! r) = sum_list (map f g) + (f x :: nat)"
proof (induction g arbitrary: r)
  case Nil then show ?case by simp
next
  case (Cons a g) then show ?case by (cases r) auto
qed

lemma countCells_setCell:
  "countCells (setCell g r c None) + (if cellAt g r c \<noteq> None then 1 else 0) = countCells g"
proof (cases "r < length g")
  case True
  show ?thesis
    using sum_list_upd[OF True, of "\<lambda>r. length (filter (\<lambda>x. x \<noteq> None) r)" "jsSet (g ! r) c None"] jsSet_None_count[of "g ! r" c] True
    by (auto simp: countCells_def setCell_def cellAt_def split: if_splits)
next
  case False then show ?thesis by (simp add: setCell_def cellAt_def)
qed

lemma chainStep_count:
  "countCells (fst (chainStep a pos acc)) + (if cellAt (fst acc) (fst pos) (snd pos) \<noteq> None then 1 else 0) = countCells (fst acc)"
  using countCells_setCell[of "fst acc" "fst pos" "snd pos"]
  by (cases acc) (simp add: chainStep_def Let_def)

lemma fold_chainStep_le:
  "countCells (fst (fold (chainStep a) ps acc)) \<le> countCells (fst acc)"
proof (induction ps arbitrary: acc)
  case Nil then show ?case by simp
next
  case (Cons p ps)
  have "countCells (fst (chainStep a p acc)) \<le> countCells (fst acc)"
    using chainStep_count[of a p acc] by (simp split: if_splits)
  then show ?case using Cons[of "chainStep a p acc"] by simp
qed

lemma fold_chainStep_less:
  assumes "ps \<noteq> []" "cellAt (fst acc) (fst (hd ps)) (snd (hd ps)) \<noteq> None"
  shows "countCells (fst (fold (chainStep a) ps acc)) < countCells (fst acc)"
proof -
  obtain p qs where ps: "ps = p # qs" using assms(1) by (cases ps) auto
  have "countCells (fst (chainStep a p acc)) < countCells (fst acc)"
    using chainStep_count[of a p acc] assms(2) ps by (simp split: if_splits)
  moreover have "countCells (fst (fold (chainStep a) qs (chainStep a p acc))) \<le> countCells (fst (chainStep a p acc))"
    by (rule fold_chainStep_le)
  ultimately show ?thesis using ps by simp
qed

lemma fold_chainStep_Nil: "fold (chainStep a) [] acc = acc" by simp

lemma occupied_all: "p \<in> set (occupied g ps) \<Longrightarrow> cellAt g (fst p) (snd p) \<noteq> None"
  by (simp add: occupied_def)

lemma activateBonus_occupied:
  assumes "activateBonus g r c b = Inr cleared" "p \<in> set cleared"
  shows "cellAt g (fst p) (snd p) \<noteq> None"
proof (cases b)
  case Line_h
  then have "cleared = occupied g (map (\<lambda>c'. (r, c')) [0..<GRID_COLS])"
    using assms(1) by (simp add: activateBonus_def split: if_splits)
  then show ?thesis using assms(2) occupied_all by blast
next
  case Line_v
  then have "cleared = occupied g (map (\<lambda>r'. (r', c)) [0..<GRID_ROWS])"
    using assms(1) by (simp add: activateBonus_def split: if_splits)
  then show ?thesis using assms(2) occupied_all by blast
next
  case Cross
  then have "cleared = occupied g (map (\<lambda>c'. (r, c')) [0..<GRID_COLS])
                 @ filter (\<lambda>p. fst p \<noteq> r) (occupied g (map (\<lambda>r'. (r', c)) [0..<GRID_ROWS]))"
    using assms(1) by (simp add: activateBonus_def split: if_splits)
  then have "p \<in> set (occupied g (map (\<lambda>c'. (r, c')) [0..<GRID_COLS]))
      \<or> p \<in> set (occupied g (map (\<lambda>r'. (r', c)) [0..<GRID_ROWS]))"
    using assms(2) by auto
  then show ?thesis using occupied_all by blast
next
  case Blast
  then have "cleared = occupied g (blastCells r c)"
    using assms(1) by (simp add: activateBonus_def Let_def split: if_splits)
  then show ?thesis using assms(2) occupied_all by blast
qed

function activateLoop :: "Grid \<Rightarrow> (nat \<times> nat \<times> BonusType) list \<Rightarrow> (nat \<times> nat) list \<Rightarrow> error + Grid" where
  "activateLoop g [] activatedPositions = Inr g"
| "activateLoop g ((r, c, b) # queue) activatedPositions =
     (if (r, c) \<in> set activatedPositions then activateLoop g queue activatedPositions
      else
        (case activateBonus g r c b of
           Inl e \<Rightarrow> Inl e
         | Inr clearedPositions \<Rightarrow>
             activateLoop
               (fst (fold (chainStep ((r, c) # activatedPositions)) clearedPositions (g, queue)))
               (snd (fold (chainStep ((r, c) # activatedPositions)) clearedPositions (g, queue)))
               ((r, c) # activatedPositions)))"
  by pat_completeness auto
termination
proof (relation "measures [\<lambda>(g, q, a). countCells g, \<lambda>(g, q, a). length q]", goal_cases)
  case 1
  then show ?case by simp
next
  case (2 g r c b queue activatedPositions)
  then show ?case by simp
next
  case (3 g r c b queue activatedPositions clearedPositions)
  show ?case
  proof (cases clearedPositions)
    case Nil
    then show ?thesis by simp
  next
    case (Cons p ps)
    then have "cellAt g (fst p) (snd p) \<noteq> None"
      using activateBonus_occupied[OF 3(2), of p] by simp
    then have "countCells (fst (fold (chainStep ((r, c) # activatedPositions)) clearedPositions (g, queue))) < countCells g"
      using fold_chainStep_less[of clearedPositions "(g, queue)" "(r, c) # activatedPositions"] Cons by simp
    then show ?thesis by simp
  qed
qed


text \<open>
  Placing the earned bonus: \<open>bonusToCreate && newGrid[bonusToCreate.row][bonusToCreate.col] === null\<close>.
\<close>

definition placeBonus :: "nat \<Rightarrow> Grid \<Rightarrow> BonusSpec option \<Rightarrow> error + (Grid \<times> nat)" where
  "placeBonus panelIdCounter g bonusToCreate =
     (case bonusToCreate of
        None \<Rightarrow> Inr (g, panelIdCounter)
      | Some (r, c, t, b) \<Rightarrow>
         (case getCell g r c of
            Inl e \<Rightarrow> Inl e
          | Inr (Some p) \<Rightarrow> Inr (g, panelIdCounter)
          | Inr None \<Rightarrow>
             (case generatePanelId panelIdCounter of
                (newId, panelIdCounter') \<Rightarrow>
                  Inr (setCell g r c
                         (Some \<lparr>ptype = t, bonus = Some b, row = r, col = c, pid = newId\<rparr>),
                       panelIdCounter'))))"

definition clearAndActivate :: "Grid \<Rightarrow> Match list \<Rightarrow> error + (Grid \<times> BonusSpec option)" where
  "clearAndActivate g matches =
     (case foldE processMatch matches (g, [], None) of
        Inl e \<Rightarrow> Inl e
      | Inr (g1, bonusesToActivate, bonusToCreate) \<Rightarrow>
         (case activateLoop g1 bonusesToActivate [] of
            Inl e \<Rightarrow> Inl e
          | Inr g2 \<Rightarrow> Inr (g2, bonusToCreate)))"

definition baseScore :: "Match list \<Rightarrow> number" where
  "baseScore matches =
     fold (\<lambda>m sum. jsAdd sum (jsMul (Num (of_nat (length (positions m)))) (Num 10))) matches
       (Num 0)"

definition processMatches :: "nat \<Rightarrow> PanelPuzzleState \<Rightarrow> error + (PanelPuzzleState \<times> nat)" where
  "processMatches panelIdCounter st =
     (case findMatches (grid st) of
        Inl e \<Rightarrow> Inl e
      | Inr matches \<Rightarrow>
         if length matches = 0 then Inr (st\<lparr>isAnimating := False\<rparr>, panelIdCounter)
         else
          (case clearAndActivate (grid st) matches of
             Inl e \<Rightarrow> Inl e
           | Inr (g2, bonusToCreate) \<Rightarrow>
              (case placeBonus panelIdCounter g2 bonusToCreate of
                 Inl e \<Rightarrow> Inl e
               | Inr (newGrid, panelIdCounter') \<Rightarrow>
                  (let comboMultiplier = jsAdd (Num 1) (jsMul (combo st) (Num (1 / 2)));
                       newScore = jsAdd (score st)
                                    (jsFloor (jsMul (baseScore matches) comboMultiplier))
                   in Inr (st\<lparr>grid := newGrid, score := newScore,
                              combo := jsAdd (combo st) (Num 1),
                              isAnimating := True\<rparr>, panelIdCounter')))))"



text \<open>The matches that earn a bonus, and the last of them in a list of matches.\<close>

definition qualifies :: "Match \<Rightarrow> bool" where
  "qualifies m = (shape m = L \<or> shape m = T \<or> 4 \<le> length (positions m))"

definition lastQualifying :: "Match list \<Rightarrow> Match option" where
  "lastQualifying ms =
     (let qs = filter qualifies ms in if qs = [] then None else Some (last qs))"

text \<open>\<open>shrinks g g'\<close>: every cell of \<open>g'\<close> is empty or is the cell of \<open>g\<close> at that place.\<close>

definition shrinks :: "Grid \<Rightarrow> Grid \<Rightarrow> bool" where
  "shrinks g g' = (\<forall>r c. cellAt g' r c = None \<or> cellAt g' r c = cellAt g r c)"

subsection \<open>Example states of the puzzle\<close>

definition mk :: "PanelType \<Rightarrow> nat \<Rightarrow> nat \<Rightarrow> Panel option" where
  "mk t r c = Some \<lparr>ptype = t, bonus = None, row = r, col = c, pid = ''p''\<rparr>"

definition emptyRows :: "nat \<Rightarrow> Grid" where
  "emptyRows n = replicate n (replicate 6 None)"

definition doubleRunState :: PanelPuzzleState where
  "doubleRunState =
     \<lparr>grid = emptyRows 10 @
        [[mk Key 10 0, mk Key 10 1, mk Key 10 2, mk Key 10 3, mk Witness 10 4, mk Document 10 5],
         [mk Magnifier 11 0, mk Document 11 1, mk Document 11 2, mk Document 11 3,
          mk Document 11 4, mk Key 11 5]],
      score = Num 0, combo = Num 3, targetScore = Num 250, timeRemaining = Num 60,
      isAnimating = False, isGameOver = False, riseProgress = Num 0, nextRow = [],
      selected = None\<rparr>"

definition doubleRunMatches :: "Match list" where
  "doubleRunMatches =
     [\<lparr>positions = [(10, 0), (10, 1), (10, 2), (10, 3)], direction = Horizontal, shape = Line,
       mtype = Key\<rparr>,
      \<lparr>positions = [(11, 1), (11, 2), (11, 3), (11, 4)], direction = Horizontal, shape = Line,
       mtype = Document\<rparr>]"

definition settledState :: PanelPuzzleState where
  "settledState =
     \<lparr>grid = emptyRows 10 @
        [[mk Key 10 0, mk Key 10 1, mk Witness 10 2, mk Key 10 3, mk Document 10 4,
          mk Magnifier 10 5],
         [mk Magnifier 11 0, mk Document 11 1, mk Key 11 2, mk Witness 11 3,
          mk Fingerprint 11 4, mk Flashlight 11 5]],
      score = Num 120, combo = Num 2, targetScore = Num 250, timeRemaining = Num 41,
      isAnimating = True, isGameOver = False, riseProgress = Num 0, nextRow = [],
      selected = Some (11, 2)\<rparr>"

definition doubleRunCleared :: Grid where
  "doubleRunCleared = emptyRows 10 @
        [[None, None, None, None, mk Witness 10 4, mk Document 10 5],
         [mk Magnifier 11 0, None, None, None, None, mk Key 11 5]]"

subsection \<open>Properties of the puzzle engine\<close>

lemma jsSet_None_get: "jsGet (jsSet xs i None) j = None \<or> jsGet (jsSet xs i None) j = jsGet xs j"
proof (cases "i < length xs")
  case True
  then show ?thesis by (simp add: jsGet_def jsSet_def nth_list_update)
next
  case False
  have "xs @ replicate (i - length xs) None @ [None] = xs @ replicate (Suc (i - length xs)) None"
    by (simp add: replicate_append_same)
  then have "jsSet xs i None = xs @ replicate (Suc (i - length xs)) None"
    using False by (simp add: jsSet_def)
  then show ?thesis by (auto simp add: jsGet_def nth_append nth_Cons')
qed

lemma length_setCell [simp]: "length (setCell g r c v) = length g"
  by (simp add: setCell_def)

lemma cellAt_setCell_None:
  "cellAt (setCell g r c None) r' c' = None \<or> cellAt (setCell g r c None) r' c' = cellAt g r' c'"
proof (cases "r < length g \<and> r' = r")
  case True
  then show ?thesis using jsSet_None_get[of "g ! r" c c'] by (simp add: cellAt_def setCell_def)
next
  case False
  then show ?thesis by (auto simp add: cellAt_def setCell_def)
qed

lemma shrinks_refl: "shrinks g g"
  by (simp add: shrinks_def)

lemma shrinks_trans: "shrinks g g' \<Longrightarrow> shrinks g' g'' \<Longrightarrow> shrinks g g''"
  unfolding shrinks_def by metis

lemma shrinks_setCell: "shrinks g (setCell g r c None)"
  using cellAt_setCell_None by (simp add: shrinks_def)

lemma putCell_setCell: "putCell g r c v = Inr g' \<Longrightarrow> g' = setCell g r c v"
  by (simp add: putCell_def setCell_def split: if_splits)

lemma clearPos_shrinks: "clearPos p g = Inr g' \<Longrightarrow> shrinks g g'"
  using putCell_setCell shrinks_setCell by (fastforce simp: clearPos_def)

lemma foldE_clearPos_shrinks: "foldE clearPos ps g = Inr g' \<Longrightarrow> shrinks g g'"
proof (induction ps arbitrary: g)
  case Nil
  then show ?case by (simp add: shrinks_refl)
next
  case (Cons p ps)
  then obtain g1 where g1: "clearPos p g = Inr g1" "foldE clearPos ps g1 = Inr g'"
    by (auto split: sum.splits)
  then show ?case using Cons.IH clearPos_shrinks shrinks_trans by blast
qed

lemma bonusOf_None: "bonusOf m = Inr None \<Longrightarrow> \<not> qualifies m"
  by (auto simp: bonusOf_def qualifies_def split: if_splits sum.splits prod.splits)

lemma bonusOf_Some: "bonusOf m = Inr (Some x) \<Longrightarrow> qualifies m"
  by (auto simp: bonusOf_def qualifies_def split: if_splits sum.splits prod.splits)

lemma lastQualifying_Nil [simp]: "lastQualifying [] = None"
  by (simp add: lastQualifying_def)

lemma lastQualifying_Cons:
  "lastQualifying (m # ms) =
     (case lastQualifying ms of Some x \<Rightarrow> Some x | None \<Rightarrow> if qualifies m then Some m else None)"
  by (simp add: lastQualifying_def Let_def)

lemma processMatch_result:
  assumes "processMatch m (g, q, b) = Inr (g', q', b')"
  shows "shrinks g g' \<and> (\<exists>x. bonusOf m = Inr x \<and> b' = (case x of Some y \<Rightarrow> Some y | None \<Rightarrow> b))"
proof -
  obtain x where x: "bonusOf m = Inr x"
    using assms by (cases "bonusOf m") (simp_all add: processMatch_def)
  obtain q1 where q1: "foldE (collectBonus g) (positions m) q = Inr q1"
    using assms x by (cases "foldE (collectBonus g) (positions m) q") (simp_all add: processMatch_def Let_def)
  have g': "foldE clearPos (positions m) g = Inr g'" and b': "b' = (case x of Some y \<Rightarrow> Some y | None \<Rightarrow> b)"
    using assms x q1 by (cases "foldE clearPos (positions m) g"; simp add: processMatch_def Let_def)+
  show ?thesis using foldE_clearPos_shrinks[OF g'] x b' by simp
qed

lemma foldE_processMatch_result:
  "foldE processMatch ms (g, q, b) = Inr (g', q', b') \<Longrightarrow>
   shrinks g g' \<and>
   (case lastQualifying ms of None \<Rightarrow> b' = b | Some m \<Rightarrow> bonusOf m = Inr b' \<and> b' \<noteq> None)"
proof (induction ms arbitrary: g q b)
  case Nil
  then show ?case by (simp add: shrinks_refl)
next
  case (Cons m ms)
  then obtain g1 q1 b1 where s1: "processMatch m (g, q, b) = Inr (g1, q1, b1)"
      and rest: "foldE processMatch ms (g1, q1, b1) = Inr (g', q', b')"
    by (cases "processMatch m (g, q, b)") auto
  from processMatch_result[OF s1] obtain x where
    sh1: "shrinks g g1" and x: "bonusOf m = Inr x" and b1: "b1 = (case x of Some y \<Rightarrow> Some y | None \<Rightarrow> b)"
    by blast
  from Cons.IH[OF rest] have sh2: "shrinks g1 g'"
    and lq: "case lastQualifying ms of None \<Rightarrow> b' = b1 | Some m \<Rightarrow> bonusOf m = Inr b' \<and> b' \<noteq> None"
    by simp_all
  have "case lastQualifying (m # ms) of None \<Rightarrow> b' = b | Some m \<Rightarrow> bonusOf m = Inr b' \<and> b' \<noteq> None"
  proof (cases "lastQualifying ms")
    case (Some m')
    then show ?thesis using lq by (simp add: lastQualifying_Cons)
  next
    case None
    then have eq: "b' = b1" using lq by simp
    show ?thesis
    proof (cases x)
      case None
      then show ?thesis using bonusOf_None x b1 eq \<open>lastQualifying ms = None\<close>
        by (simp add: lastQualifying_Cons)
    next
      case (Some y)
      then show ?thesis using bonusOf_Some x b1 eq \<open>lastQualifying ms = None\<close>
        by (simp add: lastQualifying_Cons)
    qed
  qed
  then show ?case using sh1 sh2 shrinks_trans by blast
qed

lemma chainStep_shrinks: "shrinks (fst acc) (fst (chainStep a p acc))"
  by (cases acc) (simp add: chainStep_def Let_def shrinks_setCell)

lemma fold_chainStep_shrinks: "shrinks (fst acc) (fst (fold (chainStep a) ps acc))"
proof (induction ps arbitrary: acc)
  case Nil
  then show ?case by (simp add: shrinks_refl)
next
  case (Cons p ps)
  show ?case using chainStep_shrinks[of acc a p] Cons[of "chainStep a p acc"] shrinks_trans by auto
qed

lemma activateLoop_shrinks: "activateLoop g q a = Inr g' \<Longrightarrow> shrinks g g'"
proof (induction g q a rule: activateLoop.induct)
  case (1 g a)
  then show ?case by (simp add: shrinks_refl)
next
  case (2 g r c b queue a)
  show ?case
  proof (cases "(r, c) \<in> set a")
    case True
    then show ?thesis using 2 by simp
  next
    case False
    then obtain cl where cl: "activateBonus g r c b = Inr cl"
      using 2(3) by (cases "activateBonus g r c b") auto
    let ?res = "fold (chainStep ((r, c) # a)) cl (g, queue)"
    have "activateLoop (fst ?res) (snd ?res) ((r, c) # a) = Inr g'"
      using 2(3) False cl by simp
    then have "shrinks (fst ?res) g'" using 2(2)[OF False cl] by simp
    moreover have "shrinks g (fst ?res)" using fold_chainStep_shrinks[of "(g, queue)"] by simp
    ultimately show ?thesis using shrinks_trans by blast
  qed
qed

lemma clearAndActivate_result:
  assumes "clearAndActivate g ms = Inr (cleared, b)"
  shows "shrinks g cleared \<and>
         (case lastQualifying ms of None \<Rightarrow> b = None | Some m \<Rightarrow> bonusOf m = Inr b \<and> b \<noteq> None)"
proof -
  obtain g1 q1 b1 where f: "foldE processMatch ms (g, [], None) = Inr (g1, q1, b1)"
    using assms by (cases "foldE processMatch ms (g, [], None)") (auto simp: clearAndActivate_def)
  then have a: "activateLoop g1 q1 [] = Inr cleared" and b: "b = b1"
    using assms by (cases "activateLoop g1 q1 []"; simp add: clearAndActivate_def)+
  show ?thesis
    using foldE_processMatch_result[OF f] activateLoop_shrinks[OF a] b shrinks_trans by blast
qed


lemma length_restamp [simp]: "length (restamp g r c) = length g"
  by (simp add: restamp_def split: option.splits)

lemma length_swapCells [simp]: "length (swapCells g a b c d) = length g"
  by (simp add: swapCells_def Let_def)

lemma findMatches_total: "GRID_ROWS \<le> length g \<Longrightarrow> \<exists>ms. findMatches g = Inr ms"
  by (simp add: findMatches_def Let_def split: prod.splits)

lemma isAdjacent_iff:
  "isAdjacent sr sc tr tc \<longleftrightarrow>
     (tc = sc \<and> (tr = sr + 1 \<or> sr = tr + 1)) \<or> (tr = sr \<and> (tc = sc + 1 \<or> sc = tc + 1))"
  by (auto simp: isAdjacent_def absDiff_def Let_def)

text \<open>
  Claim C7. In a state whose grid has its twelve rows and whose selection and target lie on
  rows of the grid: a target that is not one of the four neighbours of the selection
  leaves the state unchanged with \<open>swapped = false\<close>; a neighbour whose tentative swap
  yields no match gives \<open>swapped = false\<close>, the original grid and the selection cleared;
  any other neighbour gives \<open>swapped = true\<close> and commits the swapped grid.
\<close>

theorem trySwap_outcomes:
  assumes sel: "selected st = Some (sr, sc)"
    and rows: "GRID_ROWS \<le> length (grid st)" "sr < length (grid st)" "tr < length (grid st)"
  shows "\<exists>matches. findMatches (swapCells (grid st) sr sc tr tc) = Inr matches \<and>
     trySwap st tr tc = Inr
       (if \<not> ((tc = sc \<and> (tr = sr + 1 \<or> sr = tr + 1)) \<or> (tr = sr \<and> (tc = sc + 1 \<or> sc = tc + 1)))
        then \<lparr>swapped = False, state = st\<rparr>
        else if matches = [] then \<lparr>swapped = False, state = st\<lparr>selected := None\<rparr>\<rparr>
        else \<lparr>swapped = True,
               state = st\<lparr>grid := swapCells (grid st) sr sc tr tc, selected := None,
                          isAnimating := True\<rparr>\<rparr>)"
proof -
  obtain ms where ms: "findMatches (swapCells (grid st) sr sc tr tc) = Inr ms"
    using findMatches_total[of "swapCells (grid st) sr sc tr tc"] rows(1) by auto
  show ?thesis
    using sel rows ms isAdjacent_iff[of sr sc tr tc]
    by (auto simp: trySwap_def Let_def)
qed

subsection \<open>Rounding: the integers below \<open>2 ^ 53\<close> and their halves are exact\<close>








text \<open>Above \<open>2 ^ 53\<close> a sum is rounded: \<open>2 ^ 53 + 45\<close> is \<open>9007199254741036\<close>.\<close>

lemma exponent_above_safe: "exponentOf 9007199254741037 = 53"
  by code_simp

lemma round_above_safe: "roundHalfEven (9007199254741037 / 2) = 4503599627370518"
  by code_simp

lemma jsAdd_rounds: "jsAdd (Num 9007199254740992) (Num 45) = Num 9007199254741036"
  by (simp add: toDouble_def Let_def pow2_def exponent_above_safe round_above_safe)







text \<open>
  Claim C10. A call of \<open>processMatches\<close> that finds matches clears cells only (every cell
  of the cleared grid is empty or the panel that was there), and then places at most one
  new panel: the bonus earned by the last match of the list that earns one, at its centre,
  and only if that cell is empty after clearing and activation.
\<close>

theorem processMatches_single_bonus:
  assumes "findMatches (grid st) = Inr matches" "matches \<noteq> []"
    and "processMatches n st = Inr (st', n')"
  shows "\<exists>cleared b. clearAndActivate (grid st) matches = Inr (cleared, b) \<and>
           shrinks (grid st) cleared \<and>
           (case lastQualifying matches of None \<Rightarrow> b = None
            | Some m \<Rightarrow> bonusOf m = Inr b \<and> b \<noteq> None) \<and>
           grid st' =
             (case b of None \<Rightarrow> cleared
              | Some (r, c, t, bt) \<Rightarrow>
                  if cellAt cleared r c = None
                  then setCell cleared r c
                         (Some \<lparr>ptype = t, bonus = Some bt, row = r, col = c,
                                pid = ''panel-'' @ showNat n\<rparr>)
                  else cleared)"
proof -
  obtain cleared b where ca: "clearAndActivate (grid st) matches = Inr (cleared, b)"
    using assms by (cases "clearAndActivate (grid st) matches") (auto simp: processMatches_def)
  obtain g3 n3 where pb: "placeBonus n cleared b = Inr (g3, n3)"
    using assms ca by (cases "placeBonus n cleared b") (auto simp: processMatches_def)
  have g: "grid st' = g3"
    using assms ca pb by (auto simp: processMatches_def Let_def)
  have "g3 = (case b of None \<Rightarrow> cleared
              | Some (r, c, t, bt) \<Rightarrow>
                  if cellAt cleared r c = None
                  then setCell cleared r c
                         (Some \<lparr>ptype = t, bonus = Some bt, row = r, col = c,
                                pid = ''panel-'' @ showNat n\<rparr>)
                  else cleared)"
    using pb by (auto simp: placeBonus_def getCell_def cellAt_def generatePanelId_def
        split: option.splits sum.splits if_splits prod.splits)
  then show ?thesis using clearAndActivate_result[OF ca] ca g by blast
qed


lemma doubleRun_matches: "findMatches (grid doubleRunState) = Inr doubleRunMatches"
  by code_simp

lemma doubleRun_cleared:
  "clearAndActivate (grid doubleRunState) doubleRunMatches
     = Inr (doubleRunCleared, Some (11, 3, Document, Line_h))"
  by code_simp

lemma doubleRun_placed:
  "\<not> isl (placeBonus 7 doubleRunCleared (Some (11, 3, Document, Line_h)))"
  by code_simp

lemma doubleRun_returns: "\<not> isl (processMatches 7 doubleRunState)"
proof -
  obtain g3 n3 where "placeBonus 7 doubleRunCleared (Some (11, 3, Document, Line_h)) = Inr (g3, n3)"
    using doubleRun_placed
    by (cases "placeBonus 7 doubleRunCleared (Some (11, 3, Document, Line_h))") auto
  then show ?thesis
    using doubleRun_matches doubleRun_cleared
    by (simp add: processMatches_def Let_def doubleRunMatches_def)
qed




lemma swap_up_matches: "\<not> isl (findMatches (swapCells (grid settledState) 11 2 10 2)) \<and> projr (findMatches (swapCells (grid settledState) 11 2 10 2)) \<noteq> []"
  by code_simp

lemma swap_right_matches: "findMatches (swapCells (grid settledState) 11 2 11 3) = Inr []"
  by code_simp

lemma settled_rows: "GRID_ROWS \<le> length (grid settledState)"
  by code_simp

theorem trySwap_outcomes_witness:
  "selected settledState = Some (11, 2) \<and> GRID_ROWS \<le> length (grid settledState) \<and>
   trySwap settledState 0 0 = Inr \<lparr>swapped = False, state = settledState\<rparr> \<and>
   trySwap settledState 11 3 = Inr \<lparr>swapped = False, state = settledState\<lparr>selected := None\<rparr>\<rparr> \<and>
   trySwap settledState 10 2 =
     Inr \<lparr>swapped = True,
          state = settledState\<lparr>grid := swapCells (grid settledState) 11 2 10 2, selected := None,
                               isAnimating := True\<rparr>\<rparr>"
proof -
  have sel: "selected settledState = Some (11, 2)" by (simp add: settledState_def)
  have len: "length (grid settledState) = 12" by (simp add: settledState_def emptyRows_def)
  have a: "trySwap settledState 0 0 = Inr \<lparr>swapped = False, state = settledState\<rparr>"
    using trySwap_outcomes[OF sel settled_rows, of 0 0] len by auto
  have b: "trySwap settledState 11 3 = Inr \<lparr>swapped = False, state = settledState\<lparr>selected := None\<rparr>\<rparr>"
    using trySwap_outcomes[OF sel settled_rows, of 11 3] len swap_right_matches by auto
  have c: "trySwap settledState 10 2 =
     Inr \<lparr>swapped = True,
          state = settledState\<lparr>grid := swapCells (grid settledState) 11 2 10 2, selected := None,
                               isAnimating := True\<rparr>\<rparr>"
    using trySwap_outcomes[OF sel settled_rows, of 10 2] len swap_up_matches by auto
  show ?thesis using sel settled_rows a b c by simp
qed

theorem processMatches_single_bonus_witness:
  "findMatches (grid doubleRunState) = Inr doubleRunMatches \<and> doubleRunMatches \<noteq> [] \<and>
   list_all qualifies doubleRunMatches \<and>
   lastQualifying doubleRunMatches = Some (doubleRunMatches ! 1) \<and>
   bonusOf (doubleRunMatches ! 1) = Inr (Some (11, 3, Document, Line_h)) \<and>
   (\<exists>st' n'.
      processMatches 7 doubleRunState = Inr (st', n') \<and>
      grid st' = setCell doubleRunCleared 11 3
        (Some \<lparr>ptype = Document, bonus = Some Line_h, row = 11, col = 3, pid = ''panel-7''\<rparr>))"
proof -
  obtain st' n' where r: "processMatches 7 doubleRunState = Inr (st', n')"
    using doubleRun_returns by (cases "processMatches 7 doubleRunState") auto
  have ne: "doubleRunMatches \<noteq> []" by (simp add: doubleRunMatches_def)
  have qa: "list_all qualifies doubleRunMatches"
    by (simp add: qualifies_def doubleRunMatches_def)
  have lq: "lastQualifying doubleRunMatches = Some (doubleRunMatches ! 1)"
    by (simp add: lastQualifying_def qualifies_def doubleRunMatches_def)
  have bo: "bonusOf (doubleRunMatches ! 1) = Inr (Some (11, 3, Document, Line_h))"
    by (simp add: bonusOf_def centerPos_def doubleRunMatches_def)
  have sn: "showNat 7 = ''7''" by (simp add: showNat.simps digitChar_def)
  have em: "cellAt doubleRunCleared 11 3 = None" by code_simp
  have "grid st' = setCell doubleRunCleared 11 3
        (Some \<lparr>ptype = Document, bonus = Some Line_h, row = 11, col = 3, pid = ''panel-7''\<rparr>)"
    using processMatches_single_bonus[OF doubleRun_matches ne r] doubleRun_cleared em sn
    by auto
  then show ?thesis using doubleRun_matches ne qa lq bo r by blast
qed


section \<open>Case generation\<close>

subsection \<open>generation/random.ts: the seeded random source\<close>

text \<open>
  \<open>seedrandom(seed)\<close> is a library generator: a sequence of numbers in the half-open
  unit interval, fixed by the seed. It is a parameter of the model, a function from the
  seed to the sequence of draws. A draw is a binary64 value that is at least 0 and below 1.
  These are the numbers \<open>m / 2 ^ (53 + j)\<close> with \<open>0 \<le> m < 2 ^ 53\<close> and \<open>j \<le> 1021\<close>; a draw is
  given as a pair \<open>(m, j)\<close>, read modulo \<open>2 ^ 53\<close> and \<open>1022\<close>, so that every pair is a draw.
  The state of a \<open>RandomSource\<close> is the number of draws used so far.
\<close>

type_synonym draw = "int \<times> nat"

definition unitValue :: "draw \<Rightarrow> rat" where
  "unitValue d = of_int (fst d mod 2 ^ 53) / of_int (2 ^ (53 + snd d mod 1022))"

text \<open>The integer a finite number is floored to, where it is used as an index or a count.\<close>

fun intOf :: "number \<Rightarrow> int" where
  "intOf (Num r) = \<lfloor>r\<rfloor>"
| "intOf a = 0"

text \<open>The binary64 value a decimal literal of the source denotes.\<close>

definition literal :: "rat \<Rightarrow> rat" where
  "literal x = (case toDouble x of Num r \<Rightarrow> r | _ \<Rightarrow> 0)"

record RandomSource =
  draws :: "nat \<Rightarrow> draw"
  used :: nat
  seedOf :: string

definition createRandom :: "(string \<Rightarrow> nat \<Rightarrow> draw) \<Rightarrow> string \<Rightarrow> RandomSource" where
  "createRandom seedrandom seed = \<lparr>draws = seedrandom seed, used = 0, seedOf = seed\<rparr>"

definition rng :: "RandomSource \<Rightarrow> draw \<times> RandomSource" where
  "rng rs = (draws rs (used rs), rs\<lparr>used := used rs + 1\<rparr>)"

text \<open>
  \<open>Math.floor(rng() * n)\<close> for an integer \<open>n\<close> (an array length or a loop index): the product
  is rounded to binary64 and then floored. It is finite, the draw being below 1.
\<close>

definition floorTimes :: "draw \<Rightarrow> int \<Rightarrow> int" where
  "floorTimes d n = intOf (jsFloor (jsMul (Num (unitValue d)) (Num (of_int n))))"

definition random :: "RandomSource \<Rightarrow> rat \<times> RandomSource" where
  "random rs = (case rng rs of (d, rs') \<Rightarrow> (unitValue d, rs'))"

text \<open>\<open>Math.floor(rng() * (max - min + 1)) + min\<close>.\<close>

definition randomInt :: "int \<Rightarrow> int \<Rightarrow> RandomSource \<Rightarrow> int \<times> RandomSource" where
  "randomInt mn mx rs =
     (case rng rs of (d, rs') \<Rightarrow>
        (intOf (jsAdd (jsFloor (jsMul (Num (unitValue d))
                                  (jsAdd (jsAdd (Num (of_int mx)) (Num (- of_int mn))) (Num 1))))
                  (Num (of_int mn))),
         rs'))"

text \<open>\<open>pick\<close>: \<open>array[index]\<close> is \<open>undefined\<close> (\<open>None\<close>) when the index is not one of the array.\<close>

definition pick :: "'a list \<Rightarrow> RandomSource \<Rightarrow> 'a option \<times> RandomSource" where
  "pick array rs =
     (case rng rs of (d, rs') \<Rightarrow>
        (let index = floorTimes d (int (length array))
         in (if 0 \<le> index \<and> index < int (length array) then Some (array ! nat index) else None,
             rs')))"

text \<open>
  \<open>shuffle\<close>: \<open>for (let i = result.length - 1; i > 0; i--)\<close> with
  \<open>j = Math.floor(rng() * (i + 1))\<close>, which lies in \<open>0 .. i\<close>, and the two cells swapped.
\<close>

definition swapAt :: "nat \<Rightarrow> nat \<Rightarrow> 'a list \<Rightarrow> 'a list" where
  "swapAt i j result = result[i := result ! j, j := result ! i]"

fun shuffleLoop :: "nat \<Rightarrow> 'a list \<Rightarrow> RandomSource \<Rightarrow> 'a list \<times> RandomSource" where
  "shuffleLoop 0 result rs = (result, rs)"
| "shuffleLoop (Suc i) result rs =
     shuffleLoop i (swapAt (Suc i) (nat (floorTimes (fst (rng rs)) (int (Suc i) + 1))) result)
       (snd (rng rs))"

definition shuffle :: "'a list \<Rightarrow> RandomSource \<Rightarrow> 'a list \<times> RandomSource" where
  "shuffle array rs = shuffleLoop (length array - 1) array rs"

text \<open>
  Generators thread the random source and may throw: a computation takes the source and
  returns an error or a result with the source after its draws.
\<close>

type_synonym 'a gen = "RandomSource \<Rightarrow> error + ('a \<times> RandomSource)"

definition returnG :: "'a \<Rightarrow> 'a gen" where
  "returnG x rs = Inr (x, rs)"

definition throwG :: "error \<Rightarrow> 'a gen" where
  "throwG e rs = Inl e"

definition bindG :: "'a gen \<Rightarrow> ('a \<Rightarrow> 'b gen) \<Rightarrow> 'b gen" where
  "bindG m f rs = (case m rs of Inl e \<Rightarrow> Inl e | Inr (x, rs') \<Rightarrow> f x rs')"

definition liftG :: "(RandomSource \<Rightarrow> 'a \<times> RandomSource) \<Rightarrow> 'a gen" where
  "liftG f rs = Inr (f rs)"

fun foldG :: "('a \<Rightarrow> 's \<Rightarrow> 's gen) \<Rightarrow> 'a list \<Rightarrow> 's \<Rightarrow> 's gen" where
  "foldG f [] s = returnG s"
| "foldG f (x # xs) s = bindG (f x s) (foldG f xs)"

text \<open>
  A picked element whose property is read at once: an \<open>undefined\<close> pick ends in a
  TypeError. Every pick from an array that can be empty is used this way before anything
  else can be observed.
\<close>

definition pickG :: "'a list \<Rightarrow> 'a gen" where
  "pickG array =
     bindG (liftG (pick array)) (\<lambda>x. case x of None \<Rightarrow> throwG TypeError | Some y \<Rightarrow> returnG y)"

text \<open>
  A pick among the \<open>n\<close> alternative wordings of a display text. The wording itself is not
  part of the model; the draw is.
\<close>

definition pickWording :: "nat \<Rightarrow> nat gen" where
  "pickWording n = liftG (\<lambda>rs. case rng rs of (d, rs') \<Rightarrow> (nat (floorTimes d (int n)), rs'))"

text \<open>\<open>array[i]\<close> whose property is read next.\<close>

definition nthG :: "'a list \<Rightarrow> nat \<Rightarrow> 'a gen" where
  "nthG array i = (if i < length array then returnG (array ! i) else throwG TypeError)"

subsection \<open>domain/types.ts\<close>

type_synonym SuspectId = string
type_synonym ClueId = string
type_synonym LocationId = string

definition createSuspectId :: "string \<Rightarrow> SuspectId" where "createSuspectId s = s"
definition createClueId :: "string \<Rightarrow> ClueId" where "createClueId s = s"
definition createLocationId :: "string \<Rightarrow> LocationId" where "createLocationId s = s"

datatype RelationshipType =
    Spouse | ExSpouse | Lover | ExLover | Sibling | Parent | Child | Friend | Rival | Enemy
  | BusinessPartner | Employee | Employer | Acquaintance

datatype MotiveType = Jealousy | Greed | Revenge | Fear | Hatred | Protection | Ambition

datatype ClueType = Physical | Testimonial | Documentary | Behavioral | Forensic

datatype WeaponType = Poison | Knife | Blunt | Firearm | Strangulation | Pushed

text \<open>\<open>Object.values\<close> of the enums, in declaration order.\<close>

definition allRelationshipTypes :: "RelationshipType list" where
  "allRelationshipTypes =
     [Spouse, ExSpouse, Lover, ExLover, Sibling, Parent, Child, Friend, Rival, Enemy,
      BusinessPartner, Employee, Employer, Acquaintance]"

definition allMotives :: "MotiveType list" where
  "allMotives = [Jealousy, Greed, Revenge, Fear, Hatred, Protection, Ambition]"

definition allWeapons :: "WeaponType list" where
  "allWeapons = [Poison, Knife, Blunt, Firearm, Strangulation, Pushed]"

record TimeSlot =
  hour :: int
  label :: string

definition createTimeSlot :: "int \<Rightarrow> TimeSlot" where
  "createTimeSlot h =
     (let displayHour = (if h > 12 then h - 12 else if h = 0 then 12 else h);
          period = (if h \<ge> 12 then ''PM'' else ''AM'')
      in \<lparr>hour = h, label = showInt displayHour @ '':00 '' @ period\<rparr>)"

record PersonalityTraits =
  honesty :: rat
  composure :: rat
  aggression :: rat
  observance :: rat

definition createPersonalityTraits :: "rat \<Rightarrow> rat \<Rightarrow> rat \<Rightarrow> rat \<Rightarrow> PersonalityTraits" where
  "createPersonalityTraits h c a ob = \<lparr>honesty = h, composure = c, aggression = a, observance = ob\<rparr>"

subsection \<open>domain: suspect, location, relationship, alibi, clue, case\<close>

text \<open>
  The constructors take the optional parameters as options and apply the defaults
  (\<open>params.isVictim ?? false\<close> and so on).
\<close>

record Suspect =
  sid :: SuspectId
  firstName :: string
  lastName :: string
  occupation :: string
  age :: int
  sdescription :: string
  personality :: PersonalityTraits
  isVictim :: bool
  isKiller :: bool

definition createSuspect :: "SuspectId \<Rightarrow> string \<Rightarrow> string \<Rightarrow> string \<Rightarrow> int \<Rightarrow> string
    \<Rightarrow> PersonalityTraits \<Rightarrow> bool option \<Rightarrow> bool option \<Rightarrow> Suspect" where
  "createSuspect i fnm lnm oc ag de pe vi ki =
     \<lparr>sid = i, firstName = fnm, lastName = lnm, occupation = oc, age = ag, sdescription = de,
      personality = pe,
      isVictim = (case vi of Some b \<Rightarrow> b | None \<Rightarrow> False),
      isKiller = (case ki of Some b \<Rightarrow> b | None \<Rightarrow> False)\<rparr>"

definition getFullName :: "Suspect \<Rightarrow> string" where
  "getFullName s = firstName s @ '' '' @ lastName s"

record Location =
  lid :: LocationId
  lname :: string
  ldescription :: string
  isPublic :: bool
  isCrimeScene :: bool

definition createLocation :: "LocationId \<Rightarrow> string \<Rightarrow> string \<Rightarrow> bool option \<Rightarrow> bool option
    \<Rightarrow> Location" where
  "createLocation i n d pub crime =
     \<lparr>lid = i, lname = n, ldescription = d,
      isPublic = (case pub of Some b \<Rightarrow> b | None \<Rightarrow> True),
      isCrimeScene = (case crime of Some b \<Rightarrow> b | None \<Rightarrow> False)\<rparr>"

record Relationship =
  rfrom :: SuspectId
  rto :: SuspectId
  rtype :: RelationshipType
  sentiment :: int
  isPublicKnowledge :: bool
  secretReason :: "string option"

definition createRelationship :: "SuspectId \<Rightarrow> SuspectId \<Rightarrow> RelationshipType \<Rightarrow> int
    \<Rightarrow> bool option \<Rightarrow> string option \<Rightarrow> Relationship" where
  "createRelationship f t ty se pub reason =
     (let clampedSentiment = max (- 10) (min 10 se)
      in \<lparr>rfrom = f, rto = t, rtype = ty, sentiment = clampedSentiment,
          isPublicKnowledge = (case pub of Some b \<Rightarrow> b | None \<Rightarrow> True),
          secretReason = reason\<rparr>)"

text \<open>The description of an alibi is display text and is left out.\<close>

record Alibi =
  asuspectId :: SuspectId
  timeSlot :: TimeSlot
  alocation :: LocationId
  witnesses :: "SuspectId list"
  isVerifiable :: bool
  isFalse :: bool

definition createAlibi :: "SuspectId \<Rightarrow> TimeSlot \<Rightarrow> LocationId \<Rightarrow> SuspectId list option
    \<Rightarrow> bool option \<Rightarrow> bool option \<Rightarrow> Alibi" where
  "createAlibi s t l ws ver fal =
     \<lparr>asuspectId = s, timeSlot = t, alocation = l,
      witnesses = (case ws of Some w \<Rightarrow> w | None \<Rightarrow> []),
      isVerifiable = (case ver of Some b \<Rightarrow> b | None \<Rightarrow> True),
      isFalse = (case fal of Some b \<Rightarrow> b | None \<Rightarrow> False)\<rparr>"

datatype ClueSignificance = Minor | Normal | Critical

text \<open>
  The description of a clue is display text; the model keeps which template it comes
  from and which alternative was drawn. One later test reads the text
  (\<open>description.toLowerCase().includes('relationship')\<close>): of all templates only the
  hidden correspondence \<open>`Letters revealing a secret ${type} relationship.`\<close> contains
  that word.
\<close>

datatype ClueDescription =
    EvidenceText WeaponType nat
  | MotiveText MotiveType nat
  | SeenNearScene
  | ActingNervously
  | DiedBetween
  | WitnessesConfirm string
  | DoesNotHoldUp
  | SecretLetters RelationshipType

definition includesRelationship :: "ClueDescription \<Rightarrow> bool" where
  "includesRelationship d = (case d of SecretLetters t \<Rightarrow> True | _ \<Rightarrow> False)"

record Clue =
  cid :: ClueId
  ctype :: ClueType
  cname :: string
  cdescription :: ClueDescription
  foundAt :: LocationId
  pointsTo :: "SuspectId option"
  isRedHerring :: bool
  refutedBy :: "ClueId option"
  significance :: ClueSignificance

definition createClue :: "ClueId \<Rightarrow> ClueType \<Rightarrow> string \<Rightarrow> ClueDescription \<Rightarrow> LocationId
    \<Rightarrow> SuspectId option \<Rightarrow> bool option \<Rightarrow> ClueId option \<Rightarrow> ClueSignificance option \<Rightarrow> Clue" where
  "createClue i ty n d fa pt rh rb sg =
     \<lparr>cid = i, ctype = ty, cname = n, cdescription = d, foundAt = fa, pointsTo = pt,
      isRedHerring = (case rh of Some b \<Rightarrow> b | None \<Rightarrow> False),
      refutedBy = rb,
      significance = (case sg of Some s \<Rightarrow> s | None \<Rightarrow> Normal)\<rparr>"

record Case =
  seed :: string
  suspects :: "Suspect list"
  relationships :: "Relationship list"
  locations :: "Location list"
  clues :: "Clue list"
  alibis :: "Alibi list"
  victim :: SuspectId
  killer :: SuspectId
  motive :: MotiveType
  weapon :: WeaponType
  crimeScene :: LocationId
  timeOfDeath :: TimeSlot

definition getCluesPointingTo :: "Case \<Rightarrow> SuspectId \<Rightarrow> Clue list" where
  "getCluesPointingTo caseData suspectId =
     filter (\<lambda>c. pointsTo c = Some suspectId) (clues caseData)"

definition isCaseSolvable :: "Case \<Rightarrow> bool" where
  "isCaseSolvable caseData =
     (let killerClues = getCluesPointingTo caseData (killer caseData)
      in length killerClues > 0)"

subsection \<open>data/names.ts and data/locations.ts\<close>

definition firstNames :: "string list" where
  "firstNames =
    [''Eleanor'', ''Margaret'', ''Victoria'', ''Elizabeth'', ''Catherine'', ''Vivian'',
     ''Evelyn'', ''Beatrice'', ''Charlotte'', ''Penelope'', ''Constance'', ''Harriet'',
     ''Agnes'', ''Dorothy'', ''Mildred'', ''Irene'', ''Lillian'', ''Florence'',
     ''Josephine'', ''Rosalind'', ''Agatha'', ''Cordelia'', ''Gwendolyn'', ''Millicent'',
     ''Prudence'', ''Adelaide'', ''Clementine'', ''Ophelia'', ''Tabitha'', ''Winifred'',
     ''Richard'', ''William'', ''Edward'', ''Charles'', ''Henry'', ''James'', ''Thomas'',
     ''Arthur'', ''Frederick'', ''George'', ''Sebastian'', ''Oliver'', ''Theodore'',
     ''Reginald'', ''Archibald'', ''Edmund'', ''Nathaniel'', ''Humphrey'', ''Percival'',
     ''Bartholomew'', ''Alistair'', ''Benedict'', ''Cornelius'', ''Desmond'',
     ''Montgomery'', ''Rupert'', ''Sylvester'', ''Vincent'', ''Wallace'', ''Xavier'']"

definition lastNames :: "string list" where
  "lastNames =
    [''Ashworth'', ''Blackwood'', ''Hartley'', ''Pemberton'', ''Whitmore'', ''Ravencroft'',
     ''Thornwood'', ''Sterling'', ''Fairfax'', ''Cavendish'', ''Montague'', ''Sinclair'',
     ''Worthington'', ''Kensington'', ''Beaumont'', ''Crawford'', ''Harrington'',
     ''Lancaster'', ''Fitzgerald'', ''Stirling'', ''Wellington'', ''Carmichael'',
     ''Prescott'', ''Vandermeer'', ''Ashford'', ''Davenport'', ''Everhart'', ''Foxworth'',
     ''Grenville'', ''Hawthorne'', ''Kingsley'', ''Langley'', ''Merriweather'',
     ''Norwood'', ''Osgood'', ''Pembroke'', ''Rutherford'', ''Seymour'', ''Trevelyan'',
     ''Underwood'', ''Vance'', ''Wentworth'', ''Yarborough'', ''Aldridge'', ''Bainbridge'',
     ''Chadwick'', ''Drummond'', ''Eastwood'', ''Farnsworth'', ''Grimsby'']"

record Occupation =
  title :: string
  odescription :: string

definition occupations :: "Occupation list" where
  "occupations =
    [\<lparr>title = ''Industrialist'',
      odescription = ''A wealthy factory owner with vast holdings.''\<rparr>,
     \<lparr>title = ''Socialite'',
      odescription = ''A prominent figure in high society.''\<rparr>,
     \<lparr>title = ''Heiress'',
      odescription = ''A wealthy young woman expecting an inheritance.''\<rparr>,
     \<lparr>title = ''Banker'',
      odescription = ''A financier who controls the family fortune.''\<rparr>,
     \<lparr>title = ''Shipping Magnate'',
      odescription = ''Controls trade routes and harbors.''\<rparr>,
     \<lparr>title = ''Oil Baron'',
      odescription = ''Made a fortune in petroleum.''\<rparr>,
     \<lparr>title = ''Lawyer'',
      odescription = ''A shrewd legal mind who knows everyone's secrets.''\<rparr>,
     \<lparr>title = ''Doctor'',
      odescription = ''A respected physician with a calm demeanor.''\<rparr>,
     \<lparr>title = ''Professor'',
      odescription = ''An academic with an encyclopedic mind.''\<rparr>,
     \<lparr>title = ''Architect'',
      odescription = ''Designs the grand estates of the wealthy.''\<rparr>,
     \<lparr>title = ''Surgeon'',
      odescription = ''Steady hands and nerves of steel.''\<rparr>,
     \<lparr>title = ''Barrister'',
      odescription = ''Argues cases before the highest courts.''\<rparr>,
     \<lparr>title = ''Artist'',
      odescription = ''A temperamental creative with expensive tastes.''\<rparr>,
     \<lparr>title = ''Actress'',
      odescription = ''A stage performer with a flair for drama.''\<rparr>,
     \<lparr>title = ''Author'',
      odescription = ''A celebrated novelist known for dark themes.''\<rparr>,
     \<lparr>title = ''Composer'',
      odescription = ''Creates symphonies that move audiences to tears.''\<rparr>,
     \<lparr>title = ''Photographer'',
      odescription = ''Captures images that reveal hidden truths.''\<rparr>,
     \<lparr>title = ''Colonel'',
      odescription = ''A retired military officer with rigid principles.''\<rparr>,
     \<lparr>title = ''Politician'',
      odescription = ''An ambitious public figure with many enemies.''\<rparr>,
     \<lparr>title = ''Diplomat'',
      odescription = ''A master of negotiation and intrigue.''\<rparr>,
     \<lparr>title = ''Admiral'',
      odescription = ''Commanded fleets and sailors across the seas.''\<rparr>,
     \<lparr>title = ''Judge'',
      odescription = ''Dispenses justice from the bench.''\<rparr>,
     \<lparr>title = ''Butler'',
      odescription = ''A servant who sees and hears everything.''\<rparr>,
     \<lparr>title = ''Journalist'',
      odescription = ''A reporter always digging for stories.''\<rparr>,
     \<lparr>title = ''Private Secretary'',
      odescription = ''Manages affairs and keeps secrets.''\<rparr>,
     \<lparr>title = ''Governess'',
      odescription = ''Raised the children of the wealthy.''\<rparr>,
     \<lparr>title = ''Estate Manager'',
      odescription = ''Oversees the grounds and staff.''\<rparr>,
     \<lparr>title = ''Widow'',
      odescription = ''Recently bereaved, with a complicated past.''\<rparr>,
     \<lparr>title = ''Businessman'',
      odescription = ''A self-made entrepreneur with ruthless methods.''\<rparr>,
     \<lparr>title = ''Antiquarian'',
      odescription = ''Deals in rare books and artifacts.''\<rparr>,
     \<lparr>title = ''Explorer'',
      odescription = ''Has traveled to the far corners of the earth.''\<rparr>,
     \<lparr>title = ''Spiritualist'',
      odescription = ''Claims to commune with the dead.''\<rparr>]"

definition descriptions :: "string list" where
  "descriptions =
    [''A stern figure with penetrating eyes that miss nothing.'',
     ''Charming on the surface, but calculating beneath.'',
     ''Nervous and fidgety, clearly hiding something.'',
     ''Watchful and silent, observing from the shadows.'',
     ''Speaks in riddles and never gives a straight answer.'',
     ''Always seems to know more than they let on.'',
     ''Has a habit of appearing in unexpected places.'',
     ''Quiet and reserved, with an air of hidden knowledge.'',
     ''Imperious and cold, accustomed to getting their way.'',
     ''Elegant and composed, never a hair out of place.'',
     ''Meticulous and precise, obsessed with details.'',
     ''Carries themselves with military bearing.'',
     ''Speaks softly but commands attention.'',
     ''Warm and friendly, perhaps too eager to please.'',
     ''Theatrical and dramatic, always the center of attention.'',
     ''Quick to anger, with a volatile temper.'',
     ''Melancholic and brooding, lost in memories.'',
     ''Laughs too loudly and drinks too much.'',
     ''Disheveled and distracted, lost in thought.'',
     ''Brash and outspoken, with no filter on their opinions.'',
     ''Mutters to themselves when they think no one is listening.'',
     ''Collects strange objects and speaks of stranger things.'',
     ''Dresses decades out of fashion and cares not at all.'',
     ''Has a noticeable limp from an old injury.'',
     ''Constantly wringing their hands when speaking.'',
     ''Never makes eye contact for more than a moment.'',
     ''Chain-smokes and taps ashes nervously.'',
     ''Wears dark glasses even indoors.'']"

record LocationTemplate =
  tname :: string
  tdescription :: string
  tisPublic :: bool

definition manorLocations :: "LocationTemplate list" where
  "manorLocations =
    [\<lparr>tname = ''Study'',
      tdescription = ''A wood-paneled room lined with leather-bound books. The smell of tobacco lingers in the air.'',
      tisPublic = False\<rparr>,
     \<lparr>tname = ''Master Bedroom'',
      tdescription = ''An opulent bedroom with a four-poster bed and heavy curtains.'',
      tisPublic = False\<rparr>,
     \<lparr>tname = ''Guest Bedroom'',
      tdescription = ''A comfortable but less ornate sleeping quarters for visitors.'',
      tisPublic = False\<rparr>,
     \<lparr>tname = ''Kitchen'',
      tdescription = ''A large kitchen with copper pots hanging from the ceiling and the scent of herbs.'',
      tisPublic = False\<rparr>,
     \<lparr>tname = ''Wine Cellar'',
      tdescription = ''A cool underground room with racks of vintage bottles and cobwebs in the corners.'',
      tisPublic = False\<rparr>,
     \<lparr>tname = ''Servant's Quarters'',
      tdescription = ''Simple rooms behind the kitchen where the staff resides.'',
      tisPublic = False\<rparr>,
     \<lparr>tname = ''Attic'',
      tdescription = ''A dusty space beneath the rafters, filled with forgotten trunks and memories.'',
      tisPublic = False\<rparr>,
     \<lparr>tname = ''Parlor'',
      tdescription = ''An elegant sitting room with velvet furniture and a crackling fireplace.'',
      tisPublic = True\<rparr>,
     \<lparr>tname = ''Dining Room'',
      tdescription = ''A grand dining room with a long mahogany table set with fine china.'',
      tisPublic = True\<rparr>,
     \<lparr>tname = ''Library'',
      tdescription = ''Floor-to-ceiling bookshelves surround comfortable reading chairs. A ladder slides along the shelves.'',
      tisPublic = True\<rparr>,
     \<lparr>tname = ''Conservatory'',
      tdescription = ''A glass-walled room filled with exotic plants and humid air. Moonlight streams through the panes.'',
      tisPublic = True\<rparr>,
     \<lparr>tname = ''Billiard Room'',
      tdescription = ''A masculine retreat with a green-felted table and trophy heads on the walls.'',
      tisPublic = True\<rparr>,
     \<lparr>tname = ''Garden'',
      tdescription = ''A manicured garden with hedges, fountains, and hidden alcoves. Rose bushes line the paths.'',
      tisPublic = True\<rparr>,
     \<lparr>tname = ''Foyer'',
      tdescription = ''The grand entrance hall with a sweeping staircase and crystal chandelier.'',
      tisPublic = True\<rparr>,
     \<lparr>tname = ''Music Room'',
      tdescription = ''A room dominated by a grand piano and walls hung with portraits of composers.'',
      tisPublic = True\<rparr>,
     \<lparr>tname = ''Drawing Room'',
      tdescription = ''A formal reception room with silk wallpaper and delicate porcelain figurines.'',
      tisPublic = True\<rparr>,
     \<lparr>tname = ''Ballroom'',
      tdescription = ''A vast room with polished floors and mirrors that multiply the candlelight.'',
      tisPublic = True\<rparr>,
     \<lparr>tname = ''Veranda'',
      tdescription = ''A covered porch overlooking the grounds. Wicker chairs face the gardens.'',
      tisPublic = True\<rparr>,
     \<lparr>tname = ''Trophy Room'',
      tdescription = ''Mounted heads and hunting memorabilia cover every surface. A rifle case stands in the corner.'',
      tisPublic = True\<rparr>]"


subsection \<open>generation/suspect\_generator.ts\<close>

definition generatePersonality :: "PersonalityTraits gen" where
  "generatePersonality =
     bindG (liftG random) (\<lambda>h. bindG (liftG random) (\<lambda>c.
     bindG (liftG random) (\<lambda>a. bindG (liftG random) (\<lambda>ob.
       returnG (createPersonalityTraits h c a ob)))))"

text \<open>A JavaScript \<open>Set\<close> of strings, in insertion order.\<close>

definition setAdd :: "'a \<Rightarrow> 'a list \<Rightarrow> 'a list" where
  "setAdd x xs = (if x \<in> set xs then xs else xs @ [x])"

text \<open>
  The body of the loop of \<open>generateSuspects\<close>; the state is \<open>(usedNames, suspects)\<close>. The
  four pools are shuffles of the data arrays, which are not empty.
\<close>

definition generateSuspect :: "string list \<Rightarrow> string list \<Rightarrow> Occupation list \<Rightarrow> string list
    \<Rightarrow> nat \<Rightarrow> string list \<times> Suspect list \<Rightarrow> (string list \<times> Suspect list) gen" where
  "generateSuspect shuffledFirstNames shuffledLastNames shuffledOccupations shuffledDescriptions
       i acc =
     (case acc of (usedNames, suspectsSoFar) \<Rightarrow>
       (let fName = shuffledFirstNames ! (i mod length shuffledFirstNames);
            lName = shuffledLastNames ! (i mod length shuffledLastNames);
            fullName = fName @ '' '' @ lName;
            usedNames' =
              (if fullName \<in> set usedNames then
                 (let altLastName = shuffledLastNames ! ((i + 1) mod length shuffledLastNames);
                      altFullName = fName @ '' '' @ altLastName
                  in setAdd altFullName usedNames)
               else setAdd fullName usedNames);
            occ = shuffledOccupations ! (i mod length shuffledOccupations);
            descr = shuffledDescriptions ! (i mod length shuffledDescriptions)
        in bindG generatePersonality (\<lambda>pers.
           bindG (liftG (randomInt 25 70)) (\<lambda>ageDrawn.
             returnG (usedNames',
               suspectsSoFar @
                 [createSuspect (createSuspectId (''suspect-'' @ showNat i)) fName
                    (shuffledLastNames ! (i mod length shuffledLastNames)) (title occ) ageDrawn
                    (descr @ '' '' @ odescription occ) pers None None])))))"

definition generateSuspects :: "nat \<Rightarrow> Suspect list gen" where
  "generateSuspects suspectTotal =
     bindG (liftG (shuffle firstNames)) (\<lambda>shuffledFirstNames.
     bindG (liftG (shuffle lastNames)) (\<lambda>shuffledLastNames.
     bindG (liftG (shuffle occupations)) (\<lambda>shuffledOccupations.
     bindG (liftG (shuffle descriptions)) (\<lambda>shuffledDescriptions.
     bindG (foldG (generateSuspect shuffledFirstNames shuffledLastNames shuffledOccupations
                     shuffledDescriptions) [0..<suspectTotal] ([], []))
       (\<lambda>acc. returnG (snd acc))))))"

record Assignment =
  victimOf :: Suspect
  killerOf :: Suspect
  othersOf :: "Suspect list"

text \<open>
  \<open>while (killerIndex === victimIndex) killerIndex = random.randomInt(0, suspects.length - 1)\<close>:
  the loop ends only when a draw differs, so it is a partial function; \<open>None\<close> is the
  run that never ends.
\<close>

partial_function (option) redrawKiller ::
    "int \<Rightarrow> int \<Rightarrow> int \<Rightarrow> RandomSource \<Rightarrow> (int \<times> RandomSource) option" where
  "redrawKiller n victimIndex killerIndex rs =
     (if killerIndex = victimIndex
      then redrawKiller n victimIndex (fst (randomInt 0 (n - 1) rs)) (snd (randomInt 0 (n - 1) rs))
      else Some (killerIndex, rs))"

declare redrawKiller.simps [code]

definition nthI :: "'a list \<Rightarrow> int \<Rightarrow> 'a gen" where
  "nthI array i =
     (if 0 \<le> i \<and> i < int (length array) then returnG (array ! nat i) else throwG TypeError)"

definition assignVictimAndKiller ::
    "Suspect list \<Rightarrow> RandomSource \<Rightarrow> (error + (Assignment \<times> RandomSource)) option" where
  "assignVictimAndKiller allGenerated rs =
     (if length allGenerated < 3 then Some (Inl TooFewSuspects)
      else
       (case randomInt 0 (int (length allGenerated) - 1) rs of (victimIndex, rs1) \<Rightarrow>
        (case randomInt 0 (int (length allGenerated) - 1) rs1 of (killerIndex0, rs2) \<Rightarrow>
         (case redrawKiller (int (length allGenerated)) victimIndex killerIndex0 rs2 of
            None \<Rightarrow> None
          | Some (killerIndex, rs3) \<Rightarrow>
              Some
               (bindG (nthI allGenerated victimIndex) (\<lambda>v.
                bindG (nthI allGenerated killerIndex) (\<lambda>k.
                 (let victimS = createSuspect (sid v) (firstName v) (lastName v) (occupation v)
                                  (age v) (sdescription v) (personality v)
                                  (Some True) (Some (isKiller v));
                      killerS = createSuspect (sid k) (firstName k) (lastName k) (occupation k)
                                  (age k) (sdescription k) (personality k)
                                  (Some (isVictim k)) (Some True);
                      others = map snd
                                 (filter (\<lambda>p. int (fst p) \<noteq> victimIndex \<and> int (fst p) \<noteq> killerIndex)
                                    (enumerate 0 allGenerated))
                  in bindG (liftG (shuffle others)) (\<lambda>shuffledOthers.
                       returnG \<lparr>victimOf = victimS, killerOf = killerS,
                                othersOf = shuffledOthers\<rparr>)))) rs3)))))"

subsection \<open>generation/relationship\_graph.ts\<close>

definition motiveRelationships :: "RelationshipType list" where
  "motiveRelationships = [Spouse, ExSpouse, Lover, ExLover, Sibling, BusinessPartner, Rival, Enemy]"

definition motiveToRelationships :: "MotiveType \<Rightarrow> RelationshipType list" where
  "motiveToRelationships m =
     (case m of
        Jealousy \<Rightarrow> [Spouse, Lover, ExLover, Sibling]
      | Greed \<Rightarrow> [Sibling, Child, Spouse, BusinessPartner]
      | Revenge \<Rightarrow> [Enemy, ExSpouse, ExLover, Rival]
      | Fear \<Rightarrow> [Employee, BusinessPartner, Acquaintance]
      | Hatred \<Rightarrow> [Enemy, Rival, Sibling]
      | Protection \<Rightarrow> [Parent, Spouse, Friend]
      | Ambition \<Rightarrow> [Employee, BusinessPartner, Rival])"

definition getRelationshipForMotive :: "MotiveType \<Rightarrow> RelationshipType gen" where
  "getRelationshipForMotive m = pickG (motiveToRelationships m)"

text \<open>The thresholds \<open>0.4\<close>, \<open>0.3\<close> and \<open>0.2\<close> are binary64 literals.\<close>

definition createKillerVictimRelationship ::
    "SuspectId \<Rightarrow> SuspectId \<Rightarrow> MotiveType \<Rightarrow> Relationship gen" where
  "createKillerVictimRelationship killerId victimId m =
     bindG (getRelationshipForMotive m) (\<lambda>relType.
     bindG (liftG (randomInt (- 10) (- 6))) (\<lambda>sentimentDrawn.
     bindG (liftG random) (\<lambda>r.
       returnG (createRelationship killerId victimId relType sentimentDrawn
                  (Some (r > literal (4 / 10))) None))))"

definition redHerringRelationship ::
    "Suspect list \<Rightarrow> Suspect \<Rightarrow> nat \<Rightarrow> Relationship list \<Rightarrow> Relationship list gen" where
  "redHerringRelationship shuffledOthers victimS i rels =
     bindG (nthI shuffledOthers (int i)) (\<lambda>suspect.
     bindG (pickG motiveRelationships) (\<lambda>relType.
     bindG (liftG (randomInt (- 8) (- 3))) (\<lambda>sentimentDrawn.
     bindG (liftG random) (\<lambda>r.
       returnG (rels @ [createRelationship (sid suspect) (sid victimS) relType sentimentDrawn
                          (Some (r > literal (3 / 10))) None])))))"

text \<open>\<open>connectionCount\<close>, a \<open>Map\<close> from suspect ids to numbers; \<open>get(k) || 0\<close>.\<close>

type_synonym ConnectionCount = "SuspectId \<Rightarrow> int option"

definition getCount :: "ConnectionCount \<Rightarrow> SuspectId \<Rightarrow> int" where
  "getCount m k = (case m k of Some n \<Rightarrow> n | None \<Rightarrow> 0)"

definition bump :: "SuspectId \<Rightarrow> ConnectionCount \<Rightarrow> ConnectionCount" where
  "bump k m = m(k \<mapsto> getCount m k + 1)"

definition countConnections :: "Suspect list \<Rightarrow> Relationship list \<Rightarrow> ConnectionCount" where
  "countConnections allSuspects rels =
     fold (\<lambda>rel m. bump (rto rel) (bump (rfrom rel) m)) rels
       (fold (\<lambda>s m. m(sid s \<mapsto> 0)) allSuspects Map.empty)"

definition hasEdge :: "Relationship list \<Rightarrow> SuspectId \<Rightarrow> SuspectId \<Rightarrow> bool" where
  "hasEdge rels a b =
     list_ex (\<lambda>r. (rfrom r = a \<and> rto r = b) \<or> (rfrom r = b \<and> rto r = a)) rels"

definition connectOne :: "Suspect \<Rightarrow> Suspect \<Rightarrow> Relationship list \<times> ConnectionCount
    \<Rightarrow> (Relationship list \<times> ConnectionCount) gen" where
  "connectOne suspect other acc =
     bindG (pickG allRelationshipTypes) (\<lambda>relType.
     bindG (liftG (randomInt (- 5) 8)) (\<lambda>sentimentDrawn.
     bindG (liftG random) (\<lambda>r.
       returnG (fst acc @ [createRelationship (sid suspect) (sid other) relType sentimentDrawn
                             (Some (r > literal (2 / 10))) None],
                bump (sid other) (bump (sid suspect) (snd acc))))))"

definition connectSuspect :: "int \<Rightarrow> Suspect list \<Rightarrow> Suspect
    \<Rightarrow> Relationship list \<times> ConnectionCount \<Rightarrow> (Relationship list \<times> ConnectionCount) gen" where
  "connectSuspect minConnectionsPerPerson allSuspects suspect acc =
     (let currentConnections = getCount (snd acc) (sid suspect)
      in if currentConnections < minConnectionsPerPerson then
           (let needed = minConnectionsPerPerson - currentConnections;
                candidates = filter (\<lambda>s. sid s \<noteq> sid suspect
                                          \<and> \<not> hasEdge (fst acc) (sid suspect) (sid s)) allSuspects
            in bindG (liftG (shuffle candidates)) (\<lambda>shuffledCandidates.
                 foldG (connectOne suspect)
                   (take (nat (min needed (int (length shuffledCandidates)))) shuffledCandidates)
                   acc))
         else returnG acc)"

definition secretTypes :: "RelationshipType list" where
  "secretTypes = [Lover, ExLover, BusinessPartner]"

definition secretReasons :: "RelationshipType \<Rightarrow> string list" where
  "secretReasons t =
     (case t of
        Lover \<Rightarrow> [''An affair hidden from their spouses'',
                  ''A secret romance that would scandalize society'',
                  ''A forbidden relationship kept from the family'']
      | ExLover \<Rightarrow> [''A past affair no one knows about'',
                    ''A relationship that ended badly and was covered up'']
      | BusinessPartner \<Rightarrow> [''A secret business deal gone wrong'',
                            ''An undisclosed financial arrangement'',
                            ''A hidden investment that failed'']
      | _ \<Rightarrow> [''A secret connection hidden from others''])"

definition generateSecretReason :: "RelationshipType \<Rightarrow> string gen" where
  "generateSecretReason relType = pickG (secretReasons relType)"

definition secretRelationship :: "Suspect list \<Rightarrow> Relationship list \<Rightarrow> Relationship list gen" where
  "secretRelationship allSuspects rels =
     bindG (liftG (shuffle allSuspects)) (\<lambda>shuffled.
     bindG (nthI shuffled 0) (\<lambda>person1.
     bindG (nthI shuffled 1) (\<lambda>person2.
       if hasEdge rels (sid person1) (sid person2) then returnG rels
       else
         bindG (pickG secretTypes) (\<lambda>relType.
         bindG (liftG (randomInt (- 3) 7)) (\<lambda>sentimentDrawn.
         bindG (generateSecretReason relType) (\<lambda>reason.
           returnG (rels @ [createRelationship (sid person1) (sid person2) relType
                              sentimentDrawn (Some False) (Some reason)])))))))"

definition generateRelationshipGraph :: "Suspect \<Rightarrow> Suspect \<Rightarrow> Suspect list \<Rightarrow> MotiveType \<Rightarrow> int
    \<Rightarrow> Relationship list gen" where
  "generateRelationshipGraph victimS killerS others m minConnectionsPerPerson =
     (let allSuspects = victimS # killerS # others
      in bindG (createKillerVictimRelationship (sid killerS) (sid victimS) m) (\<lambda>killerVictimRel.
         bindG (liftG (randomInt 2 (min 3 (int (length others))))) (\<lambda>redHerringCount.
         bindG (liftG (shuffle others)) (\<lambda>shuffledOthers.
         bindG (foldG (redHerringRelationship shuffledOthers victimS) [0..<nat redHerringCount]
                  [killerVictimRel]) (\<lambda>rels1.
         bindG (foldG (connectSuspect minConnectionsPerPerson allSuspects) allSuspects
                  (rels1, countConnections allSuspects rels1)) (\<lambda>connected.
         bindG (liftG (randomInt 1 2)) (\<lambda>secretCount.
           foldG (\<lambda>i rels. secretRelationship allSuspects rels) [0..<nat secretCount]
             (fst connected))))))))"



subsection \<open>generation/clue\_generator.ts\<close>

record ClueGeneratorConfig =
  minCluesPointingToKiller :: int
  redHerringCount :: int

definition nextClueId :: "nat \<Rightarrow> ClueId \<times> nat" where
  "nextClueId clueIndex = (createClueId (''clue-'' @ showNat clueIndex), clueIndex + 1)"

definition physicalEvidenceNames :: "WeaponType \<Rightarrow> string list" where
  "physicalEvidenceNames w =
     (case w of
        Poison \<Rightarrow> [''Poison Vial'', ''Empty Medicine Bottle'', ''Suspicious Powder'']
      | Knife \<Rightarrow> [''Bloodied Blade'', ''Letter Opener'', ''Kitchen Knife'']
      | Blunt \<Rightarrow> [''Dented Candlestick'', ''Bronze Statue'', ''Heavy Paperweight'']
      | Firearm \<Rightarrow> [''Discharged Revolver'', ''Spent Shell Casing'', ''Gun Oil Residue'']
      | Strangulation \<Rightarrow> [''Torn Silk Scarf'', ''Rope Fibers'', ''Ligature Marks'']
      | Pushed \<Rightarrow> [''Broken Railing'', ''Torn Fabric on Balcony'', ''Scuff Marks''])"

definition getPhysicalEvidenceName :: "WeaponType \<Rightarrow> string gen" where
  "getPhysicalEvidenceName w = pickG (physicalEvidenceNames w)"

text \<open>Each weapon and each motive has two alternative descriptions.\<close>

definition getPhysicalEvidenceDescription :: "WeaponType \<Rightarrow> ClueDescription gen" where
  "getPhysicalEvidenceDescription w = bindG (pickWording 2) (\<lambda>k. returnG (EvidenceText w k))"

definition motiveDocumentNames :: "MotiveType \<Rightarrow> string list" where
  "motiveDocumentNames m =
     (case m of
        Jealousy \<Rightarrow> [''Love Letters'', ''Torn Photograph'', ''Private Diary'']
      | Greed \<Rightarrow> [''Modified Will'', ''Insurance Policy'', ''Financial Records'']
      | Revenge \<Rightarrow> [''Threatening Letter'', ''Legal Documents'', ''Old Newspaper Clipping'']
      | Fear \<Rightarrow> [''Blackmail Note'', ''Incriminating Photographs'', ''Sealed Envelope'']
      | Hatred \<Rightarrow> [''Bitter Correspondence'', ''Defaced Portrait'', ''Burned Letters'']
      | Protection \<Rightarrow> [''Secret Documents'', ''Hidden Evidence'', ''Coded Messages'']
      | Ambition \<Rightarrow> [''Business Contract'', ''Promotion Letter'', ''Partnership Agreement''])"

definition getMotiveDocumentName :: "MotiveType \<Rightarrow> string gen" where
  "getMotiveDocumentName m = pickG (motiveDocumentNames m)"

definition getMotiveDocumentDescription :: "MotiveType \<Rightarrow> ClueDescription gen" where
  "getMotiveDocumentDescription m = bindG (pickWording 2) (\<lambda>k. returnG (MotiveText m k))"

definition redHerringNames :: "string list" where
  "redHerringNames =
     [''Suspicious Object'', ''Misplaced Item'', ''Circumstantial Evidence'', ''Misleading Clue'',
      ''Planted Evidence'']"

definition getRedHerringName :: "string gen" where
  "getRedHerringName = pickG redHerringNames"

text \<open>Step 6, the body of \<open>for (const innocent of others)\<close>; the state is \<open>(clues, clueIndex)\<close>.\<close>

definition alibiClearingClue :: "Location list \<Rightarrow> Suspect \<Rightarrow> Clue list \<times> nat
    \<Rightarrow> (Clue list \<times> nat) gen" where
  "alibiClearingClue allLocations innocent acc =
     (case nextClueId (snd acc) of (newId, clueIndex') \<Rightarrow>
        bindG (pickG allLocations) (\<lambda>seenAt.
        bindG (pickG allLocations) (\<lambda>found.
          returnG (fst acc @
                     [createClue newId Testimonial (firstName innocent @ CHR 0x27 # ''s Alibi'')
                        (WitnessesConfirm (lname seenAt)) (lid found) (Some (sid innocent))
                        None None (Some Normal)],
                   clueIndex'))))"

text \<open>Step 7, the body of the red herring loop.\<close>

definition redHerringClue :: "Location \<Rightarrow> Suspect \<Rightarrow> Clue list \<times> nat \<Rightarrow> (Clue list \<times> nat) gen" where
  "redHerringClue scene redHerringTarget acc =
     (let alibiClue = find (\<lambda>c. pointsTo c = Some (sid redHerringTarget) \<and> ctype c = Testimonial)
                        (fst acc)
      in (case nextClueId (snd acc) of (newId, clueIndex') \<Rightarrow>
            bindG getRedHerringName (\<lambda>nm.
              returnG (fst acc @
                         [createClue newId Physical nm DoesNotHoldUp (lid scene)
                            (Some (sid redHerringTarget)) (Some True) (map_option cid alibiClue)
                            (Some Minor)],
                       clueIndex'))))"

text \<open>
  Steps 1 to 5: the five clues every case has, with the ids \<open>clue-0\<close> to \<open>clue-4\<close> that
  \<open>nextClueId\<close> hands out, given the names, descriptions and places drawn for them.
\<close>

definition skeletonClues :: "Suspect \<Rightarrow> Location \<Rightarrow> string \<Rightarrow> ClueDescription \<Rightarrow> string
    \<Rightarrow> ClueDescription \<Rightarrow> Location \<Rightarrow> Location \<Rightarrow> Clue list" where
  "skeletonClues killerS scene name1 description1 name2 description2 found2 found4 =
     [createClue (fst (nextClueId 0)) Physical name1 description1 (lid scene)
        (Some (sid killerS)) None None (Some Critical),
      createClue (fst (nextClueId 1)) Documentary name2 description2 (lid found2)
        (Some (sid killerS)) None None (Some Critical),
      createClue (fst (nextClueId 2)) Testimonial ''Witness Account'' SeenNearScene
        (lid scene) (Some (sid killerS)) None None (Some Normal),
      createClue (fst (nextClueId 3)) Behavioral ''Suspicious Behavior''
        ActingNervously (lid found4) (Some (sid killerS)) None None (Some Normal),
      createClue (fst (nextClueId 4)) Forensic ''Time of Death'' DiedBetween
        (lid scene) None None None (Some Critical)]"

text \<open>Step 8: the clue about the first secret relationship, if there is one.\<close>

definition hiddenCorrespondence :: "Location list \<Rightarrow> Relationship list \<Rightarrow> Clue list \<times> nat
    \<Rightarrow> Clue list gen" where
  "hiddenCorrespondence allLocations rels acc =
     (case find (\<lambda>r. \<not> isPublicKnowledge r) rels of
        None \<Rightarrow> returnG (fst acc)
      | Some secretRel \<Rightarrow>
          (let privateLocations = filter (\<lambda>l. \<not> isPublic l) allLocations
           in bindG (pickG (if length privateLocations > 0 then privateLocations
                             else allLocations)) (\<lambda>hiddenLocation.
                returnG (fst acc @
                  [createClue (fst (nextClueId (snd acc))) Documentary
                     ''Hidden Correspondence'' (SecretLetters (rtype secretRel))
                     (lid hiddenLocation) None None None (Some Normal)]))))"

definition generateClues :: "Suspect \<Rightarrow> Suspect \<Rightarrow> Suspect list \<Rightarrow> MotiveType \<Rightarrow> WeaponType
    \<Rightarrow> Location \<Rightarrow> Location list \<Rightarrow> Relationship list \<Rightarrow> ClueGeneratorConfig \<Rightarrow> Clue list gen" where
  "generateClues killerS victimS others m w scene allLocations rels config =
     bindG (getPhysicalEvidenceName w) (\<lambda>name1.
     bindG (getPhysicalEvidenceDescription w) (\<lambda>description1.
     bindG (getMotiveDocumentName m) (\<lambda>name2.
     bindG (getMotiveDocumentDescription m) (\<lambda>description2.
     bindG (pickG allLocations) (\<lambda>found2.
     bindG (pickG allLocations) (\<lambda>found4.
     bindG (foldG (alibiClearingClue allLocations) others
              (skeletonClues killerS scene name1 description1 name2 description2 found2 found4,
               5)) (\<lambda>acc6.
     bindG (liftG (shuffle others)) (\<lambda>shuffledInnocents.
     bindG (foldG (redHerringClue scene)
              (take (nat (min (redHerringCount config) (int (length shuffledInnocents))))
                 shuffledInnocents) acc6) (\<lambda>acc7.
     bindG (hiddenCorrespondence allLocations rels acc7) (\<lambda>clues8.
       liftG (shuffle clues8)))))))))))"

subsection \<open>generation/alibi\_generator.ts\<close>

datatype KillerAlibiStrategy = No_witnesses | Unreliable_witness | Partial_alibi | Conflicting_times

definition selectWitnesses :: "SuspectId \<Rightarrow> Suspect list \<Rightarrow> Suspect list gen" where
  "selectWitnesses excludeId allSuspects =
     (let candidates = filter (\<lambda>s. sid s \<noteq> excludeId \<and> \<not> isVictim s) allSuspects
      in bindG (liftG (randomInt 1 (min 2 (int (length candidates))))) (\<lambda>count.
         bindG (liftG (shuffle candidates)) (\<lambda>shuffled.
           returnG (take (nat count) shuffled))))"

text \<open>
  The body of \<open>for (const innocent of others)\<close>. The strong description draws among 7
  activities, the weak one among 4 phrases.
\<close>

definition innocentAlibi :: "Location list \<Rightarrow> Suspect list \<Rightarrow> TimeSlot \<Rightarrow> Suspect \<Rightarrow> Alibi list
    \<Rightarrow> Alibi list gen" where
  "innocentAlibi publicLocations allSuspects tod innocent acc =
     bindG (pickG publicLocations) (\<lambda>location.
     bindG (selectWitnesses (sid innocent) allSuspects) (\<lambda>ws.
     bindG (liftG random) (\<lambda>r.
       (let hasWeakAlibi = (r < literal (2 / 10))
        in if hasWeakAlibi then
             (let weakWitnesses = take 1 ws
              in bindG (pickWording 4) (\<lambda>wording.
                   returnG (acc @ [createAlibi (sid innocent) tod (lid location)
                                     (Some (map sid weakWitnesses)) (Some True) (Some False)])))
           else
             bindG (pickWording 7) (\<lambda>wording.
               returnG (acc @ [createAlibi (sid innocent) tod (lid location)
                                 (Some (map sid ws)) (Some True) (Some False)]))))))"

definition generateKillerAlibi :: "Suspect \<Rightarrow> Suspect list \<Rightarrow> Location list \<Rightarrow> Location list
    \<Rightarrow> TimeSlot \<Rightarrow> KillerAlibiStrategy \<Rightarrow> Alibi gen" where
  "generateKillerAlibi killerS others publicLocations privateLocations tod strategy =
     (case strategy of
        Unreliable_witness \<Rightarrow>
          bindG (pickG (if length publicLocations > 0 then publicLocations else privateLocations))
            (\<lambda>location.
          bindG (pickG others) (\<lambda>fakeWitness.
          bindG (pickWording 4) (\<lambda>wording.
            returnG (createAlibi (sid killerS) tod (lid location) (Some [sid fakeWitness])
                       (Some False) (Some True)))))
      | Partial_alibi \<Rightarrow>
          bindG (pickG (if length publicLocations > 0 then publicLocations else privateLocations))
            (\<lambda>location.
          bindG (selectWitnesses (sid killerS) (killerS # others)) (\<lambda>ws.
          bindG (pickWording 4) (\<lambda>wording.
            returnG (createAlibi (sid killerS) tod (lid location) (Some (map sid ws))
                       (Some False) (Some True)))))
      | Conflicting_times \<Rightarrow>
          bindG (pickG (if length privateLocations > 0 then privateLocations else publicLocations))
            (\<lambda>location.
          bindG (pickWording 5) (\<lambda>wording.
            returnG (createAlibi (sid killerS) tod (lid location) (Some [])
                       (Some False) (Some True))))
      | No_witnesses \<Rightarrow>
          bindG (if length privateLocations > 0 then pickG privateLocations
                 else pickG publicLocations) (\<lambda>location.
          bindG (pickWording 5) (\<lambda>wording.
            returnG (createAlibi (sid killerS) tod (lid location) (Some [])
                       (Some False) (Some True)))))"

definition generateAlibis :: "Suspect \<Rightarrow> Suspect \<Rightarrow> Suspect list \<Rightarrow> Location list \<Rightarrow> TimeSlot
    \<Rightarrow> Alibi list gen" where
  "generateAlibis killerS victimS others allLocations tod =
     (let publicLocations = filter (\<lambda>l. isPublic l) allLocations;
          privateLocations = filter (\<lambda>l. \<not> isPublic l) allLocations;
          allSuspects = killerS # others
      in bindG (pickG [No_witnesses, Unreliable_witness, Partial_alibi, Conflicting_times])
           (\<lambda>killerStrategy.
         bindG (foldG (innocentAlibi publicLocations allSuspects tod) others []) (\<lambda>innocentAlibis.
         bindG (generateKillerAlibi killerS others publicLocations privateLocations tod
                  killerStrategy) (\<lambda>killerAlibi.
           liftG (shuffle (innocentAlibis @ [killerAlibi]))))))"

subsection \<open>generation/case\_generator.ts\<close>

datatype Difficulty = Easy | Medium | Hard

record CaseGeneratorConfig =
  suspectCount :: nat
  difficulty :: Difficulty

text \<open>\<open>Partial<CaseGeneratorConfig>\<close>: each field may be absent.\<close>

record PartialConfig =
  suspectCountGiven :: "nat option"
  difficultyGiven :: "Difficulty option"

definition defaultConfig :: CaseGeneratorConfig where
  "defaultConfig = \<lparr>suspectCount = 6, difficulty = Medium\<rparr>"

definition fullConfigOf :: "PartialConfig \<Rightarrow> CaseGeneratorConfig" where
  "fullConfigOf config =
     \<lparr>suspectCount = (case suspectCountGiven config of Some n \<Rightarrow> n
                       | None \<Rightarrow> suspectCount defaultConfig),
      difficulty = (case difficultyGiven config of Some d \<Rightarrow> d
                     | None \<Rightarrow> difficulty defaultConfig)\<rparr>"

definition generateLocations :: "Location list gen" where
  "generateLocations =
     bindG (liftG (shuffle manorLocations)) (\<lambda>shuffled.
     bindG (liftG (randomInt 6 8)) (\<lambda>count.
       returnG (map (\<lambda>p. createLocation (createLocationId (''location-'' @ showNat (fst p)))
                            (tname (snd p)) (tdescription (snd p)) (Some (tisPublic (snd p)))
                            (Some False))
                  (enumerate 0 (take (nat count) shuffled)))))"

definition selectCrimeScene :: "Location list \<Rightarrow> Location gen" where
  "selectCrimeScene allLocations =
     (let privateLocations = filter (\<lambda>l. \<not> isPublic l) allLocations;
          candidates = (if length privateLocations > 0 then privateLocations else allLocations)
      in bindG (pickG candidates) (\<lambda>scene.
           returnG (createLocation (lid scene) (lname scene) (ldescription scene)
                      (Some (isPublic scene)) (Some True))))"

definition selectMotive :: "MotiveType gen" where
  "selectMotive = pickG allMotives"

definition selectWeapon :: "WeaponType gen" where
  "selectWeapon = pickG allWeapons"

definition selectTimeOfDeath :: "TimeSlot gen" where
  "selectTimeOfDeath = bindG (liftG (randomInt 20 23)) (\<lambda>h. returnG (createTimeSlot h))"

definition getDifficultyClueCount :: "Difficulty \<Rightarrow> int" where
  "getDifficultyClueCount d = (case d of Easy \<Rightarrow> 5 | Medium \<Rightarrow> 4 | Hard \<Rightarrow> 3)"

definition getDifficultyRedHerrings :: "Difficulty \<Rightarrow> int" where
  "getDifficultyRedHerrings d = (case d of Easy \<Rightarrow> 1 | Medium \<Rightarrow> 2 | Hard \<Rightarrow> 3)"

definition createCase :: "string \<Rightarrow> Suspect list \<Rightarrow> Relationship list \<Rightarrow> Location list \<Rightarrow> Clue list
    \<Rightarrow> Alibi list \<Rightarrow> SuspectId \<Rightarrow> SuspectId \<Rightarrow> MotiveType \<Rightarrow> WeaponType \<Rightarrow> LocationId \<Rightarrow> TimeSlot
    \<Rightarrow> Case" where
  "createCase sd ss rs ls cs als v k m w scene tod =
     \<lparr>seed = sd, suspects = ss, relationships = rs, locations = ls, clues = cs, alibis = als,
      victim = v, killer = k, motive = m, weapon = w, crimeScene = scene, timeOfDeath = tod\<rparr>"

text \<open>
  The part of \<open>generateCase\<close> after the victim and the killer are assigned, up to
  \<open>createCase\<close>.
\<close>

definition assembleCase :: "string \<Rightarrow> CaseGeneratorConfig \<Rightarrow> Location list \<Rightarrow> Assignment \<Rightarrow> Case gen" where
  "assembleCase sd fullConfig allLocations a =
     bindG selectMotive (\<lambda>m.
     bindG selectWeapon (\<lambda>w.
     bindG (selectCrimeScene allLocations) (\<lambda>scene.
     bindG selectTimeOfDeath (\<lambda>tod.
     bindG (generateRelationshipGraph (victimOf a) (killerOf a) (othersOf a) m 2) (\<lambda>rels.
     bindG (generateClues (killerOf a) (victimOf a) (othersOf a) m w scene allLocations rels
              \<lparr>minCluesPointingToKiller = getDifficultyClueCount (difficulty fullConfig),
               redHerringCount = getDifficultyRedHerrings (difficulty fullConfig)\<rparr>) (\<lambda>cs.
     bindG (generateAlibis (killerOf a) (victimOf a) (othersOf a) allLocations tod) (\<lambda>als.
       returnG (createCase sd (victimOf a # killerOf a # othersOf a) rels allLocations cs als
                  (sid (victimOf a)) (sid (killerOf a)) m w (lid scene) tod))))))))"

text \<open>
  One attempt of \<open>generateCase\<close>: everything before the solvability check. The result is
  \<open>None\<close> when the redraw loop of the killer index never ends.
\<close>

definition generateAttempt ::
    "(string \<Rightarrow> nat \<Rightarrow> draw) \<Rightarrow> string \<Rightarrow> PartialConfig \<Rightarrow> (error + Case) option" where
  "generateAttempt seedrandom sd config =
     (let fullConfig = fullConfigOf config;
          rnd = createRandom seedrandom sd
      in (case bindG generateLocations (\<lambda>ls.
               bindG (generateSuspects (suspectCount fullConfig)) (\<lambda>ss. returnG (ls, ss))) rnd of
            Inl e \<Rightarrow> Some (Inl e)
          | Inr ((ls, ss), rs1) \<Rightarrow>
             (case assignVictimAndKiller ss rs1 of
                None \<Rightarrow> None
              | Some (Inl e) \<Rightarrow> Some (Inl e)
              | Some (Inr (a, rs2)) \<Rightarrow>
                 (case assembleCase sd fullConfig ls a rs2 of
                    Inl e \<Rightarrow> Some (Inl e)
                  | Inr (c, rs3) \<Rightarrow> Some (Inr c)))))"

partial_function (option) generateCase ::
    "(string \<Rightarrow> nat \<Rightarrow> draw) \<Rightarrow> string \<Rightarrow> PartialConfig \<Rightarrow> (error + Case) option" where
  "generateCase seedrandom sd config =
     (case generateAttempt seedrandom sd config of
        None \<Rightarrow> None
      | Some (Inl e) \<Rightarrow> Some (Inl e)
      | Some (Inr generatedCase) \<Rightarrow>
          if \<not> isCaseSolvable generatedCase
          then generateCase seedrandom (sd @ ''-retry'') config
          else Some (Inr generatedCase))"

declare generateCase.simps [code]


end
